theory Spec2Isabelle
  imports Main "HOL-Library.Word"
begin

unbundle bit_operations_syntax

section \<open>The DWARF image as libdw presents it\<close>

text \<open>
  The materializer of \<^verbatim>\<open>libdrgn/dwarf_info_cache.c\<close> reads debugging information
  entries (DIEs) through libdw. A DIE is identified by its stable address
  (\<^verbatim>\<open>die->addr\<close>), which is also the key of the memoization maps.
\<close>

type_synonym die_addr = nat

datatype dw_tag =
    DW_TAG_const_type | DW_TAG_restrict_type | DW_TAG_volatile_type | DW_TAG_atomic_type
  | DW_TAG_base_type | DW_TAG_structure_type | DW_TAG_union_type | DW_TAG_class_type
  | DW_TAG_enumeration_type | DW_TAG_typedef | DW_TAG_pointer_type | DW_TAG_array_type
  | DW_TAG_subroutine_type | DW_TAG_subprogram
  | DW_TAG_member | DW_TAG_enumerator | DW_TAG_subrange_type
  | DW_TAG_formal_parameter | DW_TAG_unspecified_parameters | DW_TAG_variable
  | DW_TAG_other nat

datatype dw_at =
    DW_AT_name | DW_AT_type | DW_AT_byte_size | DW_AT_bit_size | DW_AT_bit_offset
  | DW_AT_data_bit_offset | DW_AT_data_member_location | DW_AT_upper_bound | DW_AT_count
  | DW_AT_encoding | DW_AT_declaration | DW_AT_const_value | DW_AT_endianity

datatype dw_form =
    DW_FORM_data | DW_FORM_udata | DW_FORM_sdata | DW_FORM_implicit_const
  | DW_FORM_string | DW_FORM_ref | DW_FORM_flag | DW_FORM_block

text \<open>
  What an attribute holds. A constant keeps the 64-bit pattern libdw decodes
  (a \<^verbatim>\<open>Dwarf_Word\<close>; an sdata of -1 is the all-ones word) and the form it
  was written in.
\<close>

datatype attr_data =
    Constant dw_form "64 word"
  | String_Data string
  | Reference die_addr
  | Flag_Data bool
  | Block_Data "8 word list"

record Dwarf_Attribute =
  code :: dw_at
  data :: attr_data

datatype drgn_language = DRGN_LANGUAGE_C | DRGN_LANGUAGE_CPP

datatype drgn_error_code =
    DRGN_ERROR_OTHER | DRGN_ERROR_OVERFLOW | DRGN_ERROR_RECURSION
  | DRGN_ERROR_INVALID_ARGUMENT | DRGN_ERROR_LOOKUP | DRGN_ERROR_STOP | DRGN_ERROR_NO_MEMORY

text \<open>
  How a call can end without a result: with a \<^verbatim>\<open>struct drgn_error\<close> of some
  code (\<^verbatim>\<open>&drgn_enomem\<close> is the error of code \<^verbatim>\<open>DRGN_ERROR_NO_MEMORY\<close>), in
  \<^verbatim>\<open>UNREACHABLE()\<close> (the program aborts), by returning an \<^verbatim>\<open>err\<close> that was never
  assigned or is left from an earlier step (\<open>Uninitialized\<close>: what the caller then reads is
  indeterminate, and the model follows the call no further), or, for the model only,
  because the fuel of the recursion below ran out (theorem
  \<open>drgn_type_from_dwarf_internal_fuel\<close>: the entry point never ends so).
\<close>

datatype failure = Error drgn_error_code | Unreachable | Uninitialized | Fuel_Exhausted

type_synonym 'a result = "failure + 'a"

text \<open>
  A DIE: its tag, its attributes as \<^verbatim>\<open>dwarf_attr_integrate\<close> finds them, its
  children in order (\<^verbatim>\<open>dwarf_child\<close>, \<^verbatim>\<open>dwarf_siblingof\<close>) and whether
  walking them ends normally (\<open>False\<close>: libdw returns -1 after the listed children),
  the byte order in the ELF header of its file, and what
  \<^verbatim>\<open>drgn_language_from_die\<close> returns for it (\<open>None\<close>: an error; \<open>Some None\<close>:
  a null language).
\<close>

record die =
  die_tag :: dw_tag
  die_attrs :: "Dwarf_Attribute list"
  die_children :: "die_addr list"
  die_children_ok :: bool
  die_elf_lsb :: bool
  die_language :: "drgn_language option option"

text \<open>
  The image: the DIE at each address, the name index
  (\<^verbatim>\<open>drgn_dwarf_index\<close>: the DIEs with a given name and tag, in the order the
  iterator yields them), and the word size of the program's platform if known.
\<close>

record dwarf_image =
  dies :: "die_addr \<Rightarrow> die"
  dindex :: "string \<Rightarrow> dw_tag \<Rightarrow> die_addr list"
  prog_word_size :: "8 word option"

definition dwarf_tag :: "die \<Rightarrow> dw_tag" where
  "dwarf_tag d = die_tag d"

definition dwarf_attr_integrate :: "die \<Rightarrow> dw_at \<Rightarrow> Dwarf_Attribute option" where
  "dwarf_attr_integrate d name = find (\<lambda>a. code a = name) (die_attrs d)"

definition form :: "Dwarf_Attribute \<Rightarrow> dw_form" where
  "form attr = (case data attr of
      Constant f w \<Rightarrow> f
    | String_Data s \<Rightarrow> DW_FORM_string
    | Reference r \<Rightarrow> DW_FORM_ref
    | Flag_Data b \<Rightarrow> DW_FORM_flag
    | Block_Data bs \<Rightarrow> DW_FORM_block)"

text \<open>The decoders return \<open>None\<close> where libdw reports an incompatible form.\<close>

definition dwarf_formudata :: "Dwarf_Attribute \<Rightarrow> 64 word option" where
  "dwarf_formudata attr = (case data attr of Constant f w \<Rightarrow> Some w | _ \<Rightarrow> None)"

definition dwarf_formsdata :: "Dwarf_Attribute \<Rightarrow> 64 word option" where
  "dwarf_formsdata attr = (case data attr of Constant f w \<Rightarrow> Some w | _ \<Rightarrow> None)"

definition dwarf_formstring :: "Dwarf_Attribute \<Rightarrow> string option" where
  "dwarf_formstring attr = (case data attr of String_Data s \<Rightarrow> Some s | _ \<Rightarrow> None)"

definition dwarf_formref_die :: "Dwarf_Attribute \<Rightarrow> die_addr option" where
  "dwarf_formref_die attr = (case data attr of Reference r \<Rightarrow> Some r | _ \<Rightarrow> None)"

definition dwarf_formflag :: "Dwarf_Attribute \<Rightarrow> bool option" where
  "dwarf_formflag attr = (case data attr of Flag_Data b \<Rightarrow> Some b | _ \<Rightarrow> None)"

definition dwarf_diename :: "die \<Rightarrow> string option" where
  "dwarf_diename d =
    (case dwarf_attr_integrate d DW_AT_name of
       None \<Rightarrow> None
     | Some attr \<Rightarrow> dwarf_formstring attr)"

text \<open>\<^verbatim>\<open>dwarf_bytesize\<close> returns an \<^verbatim>\<open>int\<close>: the value cut to 32 bits, or -1.\<close>

definition dwarf_bytesize :: "die \<Rightarrow> int" where
  "dwarf_bytesize d =
    (case dwarf_attr_integrate d DW_AT_byte_size of
       None \<Rightarrow> - 1
     | Some attr \<Rightarrow>
         (case dwarf_formudata attr of
            None \<Rightarrow> - 1
          | Some w \<Rightarrow> sint (ucast w :: 32 word)))"

definition DW_ATE_boolean :: "64 word" where "DW_ATE_boolean = 2"
definition DW_ATE_complex_float :: "64 word" where "DW_ATE_complex_float = 3"
definition DW_ATE_float :: "64 word" where "DW_ATE_float = 4"
definition DW_ATE_signed :: "64 word" where "DW_ATE_signed = 5"
definition DW_ATE_signed_char :: "64 word" where "DW_ATE_signed_char = 6"
definition DW_ATE_unsigned :: "64 word" where "DW_ATE_unsigned = 7"
definition DW_ATE_unsigned_char :: "64 word" where "DW_ATE_unsigned_char = 8"

definition DW_END_default :: "64 word" where "DW_END_default = 0"
definition DW_END_big :: "64 word" where "DW_END_big = 1"
definition DW_END_little :: "64 word" where "DW_END_little = 2"

definition UINT64_MAX :: "64 word" where "UINT64_MAX = 18446744073709551615"

section \<open>Type descriptors\<close>

text \<open>
  Modelled from the spec: the type factory (\<^verbatim>\<open>type.c\<close>, \<^verbatim>\<open>type.h\<close>) is not
  part of the sources at hand. A descriptor is the value of the fields the factory is
  given, together with the number the program gave it when it was created
  (its identity: two descriptors created by two calls differ in it). The void type of a
  language is the one descriptor \<^verbatim>\<open>drgn_void_type\<close> returns. A member or a
  parameter holds a lazy type: a thunk \<^verbatim>\<open>{die, can_be_incomplete_array}\<close> or
  the qualified type it was evaluated to.
\<close>

datatype type_kind =
    DRGN_TYPE_VOID | DRGN_TYPE_INT | DRGN_TYPE_BOOL | DRGN_TYPE_FLOAT | DRGN_TYPE_COMPLEX
  | DRGN_TYPE_STRUCT | DRGN_TYPE_UNION | DRGN_TYPE_CLASS | DRGN_TYPE_ENUM
  | DRGN_TYPE_TYPEDEF | DRGN_TYPE_POINTER | DRGN_TYPE_ARRAY | DRGN_TYPE_FUNCTION

datatype drgn_type =
    Void_Type "drgn_language option"
  | Int_Type nat "drgn_language option" string "64 word" bool
  | Bool_Type nat "drgn_language option" string "64 word"
  | Float_Type nat "drgn_language option" string "64 word"
  | Complex_Type nat "drgn_language option" string "64 word" drgn_type
  | Compound_Type nat "drgn_language option" type_kind "string option" "64 word"
      "drgn_type_member list"
  | Incomplete_Compound_Type nat "drgn_language option" type_kind "string option"
  | Enum_Type nat "drgn_language option" "string option" drgn_type "(string \<times> 64 word) list"
  | Incomplete_Enum_Type nat "drgn_language option" "string option"
  | Typedef_Type nat "drgn_language option" string drgn_type "8 word"
  | Pointer_Type nat "drgn_language option" drgn_type "8 word" "64 word"
  | Array_Type nat "drgn_language option" drgn_type "8 word" "64 word"
  | Incomplete_Array_Type nat "drgn_language option" drgn_type "8 word"
  | Function_Type nat "drgn_language option" drgn_type "8 word"
      "drgn_type_parameter list" bool
and drgn_lazy_type =
    Thunk die_addr bool
  | Evaluated drgn_type "8 word"
and drgn_type_member =
    Member drgn_lazy_type "string option" "64 word" "64 word"
and drgn_type_parameter =
    Parameter drgn_lazy_type "string option"

record drgn_qualified_type =
  type :: drgn_type
  qualifiers :: "8 word"

definition DRGN_QUALIFIER_CONST :: "8 word" where "DRGN_QUALIFIER_CONST = 1"
definition DRGN_QUALIFIER_VOLATILE :: "8 word" where "DRGN_QUALIFIER_VOLATILE = 2"
definition DRGN_QUALIFIER_RESTRICT :: "8 word" where "DRGN_QUALIFIER_RESTRICT = 4"
definition DRGN_QUALIFIER_ATOMIC :: "8 word" where "DRGN_QUALIFIER_ATOMIC = 8"

fun drgn_type_kind :: "drgn_type \<Rightarrow> type_kind" where
  "drgn_type_kind (Void_Type l) = DRGN_TYPE_VOID"
| "drgn_type_kind (Int_Type i l n s sg) = DRGN_TYPE_INT"
| "drgn_type_kind (Bool_Type i l n s) = DRGN_TYPE_BOOL"
| "drgn_type_kind (Float_Type i l n s) = DRGN_TYPE_FLOAT"
| "drgn_type_kind (Complex_Type i l n s r) = DRGN_TYPE_COMPLEX"
| "drgn_type_kind (Compound_Type i l k t s ms) = k"
| "drgn_type_kind (Incomplete_Compound_Type i l k t) = k"
| "drgn_type_kind (Enum_Type i l t c es) = DRGN_TYPE_ENUM"
| "drgn_type_kind (Incomplete_Enum_Type i l t) = DRGN_TYPE_ENUM"
| "drgn_type_kind (Typedef_Type i l n a q) = DRGN_TYPE_TYPEDEF"
| "drgn_type_kind (Pointer_Type i l r q s) = DRGN_TYPE_POINTER"
| "drgn_type_kind (Array_Type i l e q n) = DRGN_TYPE_ARRAY"
| "drgn_type_kind (Incomplete_Array_Type i l e q) = DRGN_TYPE_ARRAY"
| "drgn_type_kind (Function_Type i l r q ps v) = DRGN_TYPE_FUNCTION"

text \<open>
  \<^verbatim>\<open>drgn_type_has_size\<close> goes by the kind; the size of an incomplete compound
  is zero.
\<close>

definition drgn_type_has_size :: "drgn_type \<Rightarrow> bool" where
  "drgn_type_has_size t =
    (drgn_type_kind t \<in> {DRGN_TYPE_INT, DRGN_TYPE_BOOL, DRGN_TYPE_FLOAT, DRGN_TYPE_COMPLEX,
       DRGN_TYPE_STRUCT, DRGN_TYPE_UNION, DRGN_TYPE_CLASS, DRGN_TYPE_POINTER})"

fun drgn_type_size :: "drgn_type \<Rightarrow> 64 word" where
  "drgn_type_size (Int_Type i l n s sg) = s"
| "drgn_type_size (Bool_Type i l n s) = s"
| "drgn_type_size (Float_Type i l n s) = s"
| "drgn_type_size (Complex_Type i l n s r) = s"
| "drgn_type_size (Compound_Type i l k t s ms) = s"
| "drgn_type_size (Pointer_Type i l r q s) = s"
| "drgn_type_size t = 0"

fun drgn_type_enumerators :: "drgn_type \<Rightarrow> (string \<times> 64 word) list" where
  "drgn_type_enumerators (Enum_Type i l t c es) = es"
| "drgn_type_enumerators t = []"

fun drgn_enum_type_is_signed :: "drgn_type \<Rightarrow> bool" where
  "drgn_enum_type_is_signed (Enum_Type i l t (Int_Type i' l' n s sg) es) = sg"
| "drgn_enum_type_is_signed t = False"

text \<open>
  The length of the outermost array dimension of a type, looking through typedefs:
  \<open>Some n\<close> for an array of \<open>n\<close> elements, \<open>None\<close> for an incomplete array or a
  type that is no array.
\<close>

fun outermost_array_length :: "drgn_type \<Rightarrow> 64 word option" where
  "outermost_array_length (Array_Type i l e q n) = Some n"
| "outermost_array_length (Typedef_Type i l n a q) = outermost_array_length a"
| "outermost_array_length t = None"

section \<open>The debugging information cache\<close>

text \<open>
  The value of a memoization map entry (\<^verbatim>\<open>dwarf_type_map\<close>) and the cache
  (\<^verbatim>\<open>struct drgn_dwarf_info_cache\<close>): the primary map \<^verbatim>\<open>map\<close>, the map
  \<^verbatim>\<open>cant_be_incomplete_array_map\<close> and the recursion depth. The hash tables are
  kept as maps from DIE address to entry. \<open>types_created\<close> counts the descriptors the
  program's factory has handed out.

  Memory allocation can fail. \<open>allocations\<close> lists the outcomes of the allocations still
  to come, in order (\<open>True\<close>: the allocation succeeds); past the end of the list every
  allocation succeeds. The allocations of \<^verbatim>\<open>dwarf_info_cache.c\<close> itself take their outcome
  from it: the \<^verbatim>\<open>malloc\<close> of a thunk, the append of an entry to the dimension vector and
  the insertion into a memoization map. The type factory and the builders of \<^verbatim>\<open>type.c\<close>
  are taken to succeed.
\<close>

record dwarf_type_map_value = drgn_qualified_type +
  is_incomplete_array :: bool

record drgn_dwarf_info_cache =
  map_tbl :: "die_addr \<rightharpoonup> dwarf_type_map_value"
  cant_be_incomplete_array_map :: "die_addr \<rightharpoonup> dwarf_type_map_value"
  depth :: nat
  types_created :: nat
  allocations :: "bool list"

definition drgn_dwarf_info_cache_create :: "drgn_dwarf_info_cache" where
  "drgn_dwarf_info_cache_create =
    \<lparr>map_tbl = Map.empty, cant_be_incomplete_array_map = Map.empty, depth = 0,
     types_created = 0, allocations = []\<rparr>"

text \<open>An allocation: whether it succeeds, and the cache with the outcomes that remain.\<close>

definition alloc :: "drgn_dwarf_info_cache \<Rightarrow> drgn_dwarf_info_cache \<times> bool" where
  "alloc dicache =
    (case allocations dicache of
       [] \<Rightarrow> (dicache, True)
     | ok # rest \<Rightarrow> (dicache\<lparr>allocations := rest\<rparr>, ok))"

text \<open>
  A call of \<^verbatim>\<open>drgn_type_from_dwarf_internal\<close>, as the functions below see it:
  the cache, the DIE, \<^verbatim>\<open>can_be_incomplete_array\<close> and the out-parameter
  \<^verbatim>\<open>is_incomplete_array_ret\<close> (\<open>None\<close>: a null pointer; \<open>Some b\<close>: a cell that
  holds \<open>b\<close> on entry). It returns the cache and, on success, the qualified type and
  what the cell holds on return.
\<close>

type_synonym resolver =
  "drgn_dwarf_info_cache \<Rightarrow> die_addr \<Rightarrow> bool \<Rightarrow> bool option
    \<Rightarrow> drgn_dwarf_info_cache \<times> (drgn_qualified_type \<times> bool option) result"

subsection \<open>The type factory\<close>

definition new_type ::
  "drgn_dwarf_info_cache \<Rightarrow> (nat \<Rightarrow> drgn_type) \<Rightarrow> drgn_dwarf_info_cache \<times> drgn_type result" where
  "new_type dicache mk =
    (dicache\<lparr>types_created := Suc (types_created dicache)\<rparr>, Inr (mk (types_created dicache)))"

definition drgn_void_type :: "drgn_language option \<Rightarrow> drgn_type" where
  "drgn_void_type lang = Void_Type lang"

definition drgn_bool_type_create where
  "drgn_bool_type_create dicache name sz lang = new_type dicache (\<lambda>i. Bool_Type i lang name sz)"

definition drgn_float_type_create where
  "drgn_float_type_create dicache name sz lang =
    new_type dicache (\<lambda>i. Float_Type i lang name sz)"

definition drgn_int_type_create where
  "drgn_int_type_create dicache name sz is_signed lang =
    new_type dicache (\<lambda>i. Int_Type i lang name sz is_signed)"

definition drgn_complex_type_create where
  "drgn_complex_type_create dicache name sz real_type lang =
    new_type dicache (\<lambda>i. Complex_Type i lang name sz real_type)"

definition drgn_compound_type_create where
  "drgn_compound_type_create dicache kind builder tag sz lang =
    new_type dicache (\<lambda>i. Compound_Type i lang kind tag sz builder)"

definition drgn_incomplete_compound_type_create where
  "drgn_incomplete_compound_type_create dicache kind tag lang =
    new_type dicache (\<lambda>i. Incomplete_Compound_Type i lang kind tag)"

definition drgn_enum_type_create where
  "drgn_enum_type_create dicache builder tag compatible_type lang =
    new_type dicache (\<lambda>i. Enum_Type i lang tag compatible_type builder)"

definition drgn_incomplete_enum_type_create where
  "drgn_incomplete_enum_type_create dicache tag lang =
    new_type dicache (\<lambda>i. Incomplete_Enum_Type i lang tag)"

definition drgn_typedef_type_create where
  "drgn_typedef_type_create dicache name aliased_type lang =
    new_type dicache (\<lambda>i. Typedef_Type i lang name (type aliased_type) (qualifiers aliased_type))"

definition drgn_pointer_type_create where
  "drgn_pointer_type_create dicache referenced_type sz lang =
    new_type dicache
      (\<lambda>i. Pointer_Type i lang (type referenced_type) (qualifiers referenced_type) sz)"

definition drgn_array_type_create where
  "drgn_array_type_create dicache element_type len lang =
    new_type dicache (\<lambda>i. Array_Type i lang (type element_type) (qualifiers element_type) len)"

definition drgn_incomplete_array_type_create where
  "drgn_incomplete_array_type_create dicache element_type lang =
    new_type dicache
      (\<lambda>i. Incomplete_Array_Type i lang (type element_type) (qualifiers element_type))"

definition drgn_function_type_create where
  "drgn_function_type_create dicache builder return_type is_variadic lang =
    new_type dicache
      (\<lambda>i. Function_Type i lang (type return_type) (qualifiers return_type) builder is_variadic)"

definition drgn_language_or_default :: "drgn_language option \<Rightarrow> drgn_language option" where
  "drgn_language_or_default lang =
    (case lang of None \<Rightarrow> Some DRGN_LANGUAGE_C | Some l \<Rightarrow> Some l)"

definition drgn_language_from_die :: "die \<Rightarrow> drgn_language option result" where
  "drgn_language_from_die d =
    (case die_language d of None \<Rightarrow> Inl (Error DRGN_ERROR_OTHER) | Some lang \<Rightarrow> Inr lang)"

definition drgn_program_word_size :: "dwarf_image \<Rightarrow> 8 word result" where
  "drgn_program_word_size img =
    (case prog_word_size img of
       None \<Rightarrow> Inl (Error DRGN_ERROR_INVALID_ARGUMENT)
     | Some w \<Rightarrow> Inr w)"

text \<open>
  Modelled from the spec: the name index iterator (\<^verbatim>\<open>drgn_dwarf_index_iterator_init\<close> and
  \<^verbatim>\<open>drgn_dwarf_index_iterator_next\<close> of \<^verbatim>\<open>dwarf_index.c\<close>, which is not among the source
  files). Iterating over a name and a tag yields the matching DIEs one by one and ends with the
  \<^verbatim>\<open>Stop\<close> sentinel: the iterator is the list of the DIEs still to come, and past the last one
  \<^verbatim>\<open>drgn_dwarf_index_iterator_next\<close> returns \<^verbatim>\<open>&drgn_stop\<close>.
\<close>

definition drgn_dwarf_index_iterator_init ::
  "dwarf_image \<Rightarrow> string \<Rightarrow> dw_tag \<Rightarrow> die_addr list" where
  "drgn_dwarf_index_iterator_init img name tag = dindex img name tag"

definition drgn_dwarf_index_iterator_next :: "die_addr list \<Rightarrow> (die_addr \<times> die_addr list) result" where
  "drgn_dwarf_index_iterator_next it =
    (case it of [] \<Rightarrow> Inl (Error DRGN_ERROR_STOP) | d # rest \<Rightarrow> Inr (d, rest))"

section \<open>The functions of dwarf\_info\_cache.c\<close>

text \<open>
  The functions that parse a type call \<^verbatim>\<open>drgn_type_from_dwarf_internal\<close> again.
  Each takes that call as its first argument \<open>rec\<close>; the recursion is tied at the end
  of the section.
\<close>

definition endianity_switch :: "die \<Rightarrow> 64 word \<Rightarrow> bool result" where
  "endianity_switch d endianity =
    (if endianity = DW_END_default then Inr (die_elf_lsb d)
     else if endianity = DW_END_little then Inr True
     else if endianity = DW_END_big then Inr False
     else Inl (Error DRGN_ERROR_OTHER))"

definition dwarf_die_is_little_endian :: "die \<Rightarrow> bool \<Rightarrow> bool result" where
  "dwarf_die_is_little_endian d check_attr =
    (case (if check_attr then dwarf_attr_integrate d DW_AT_endianity else None) of
       Some endianity_attr \<Rightarrow>
         (case dwarf_formudata endianity_attr of
            None \<Rightarrow> Inl (Error DRGN_ERROR_OTHER)
          | Some endianity \<Rightarrow> endianity_switch d endianity)
     | None \<Rightarrow> endianity_switch d DW_END_default)"

text \<open>\<^verbatim>\<open>dwarf_type\<close>: 1 without \<^verbatim>\<open>DW_AT_type\<close>, 0 and the DIE, or -1.\<close>

definition dwarf_type :: "die \<Rightarrow> int \<times> die_addr option" where
  "dwarf_type d =
    (case dwarf_attr_integrate d DW_AT_type of
       None \<Rightarrow> (1, None)
     | Some attr \<Rightarrow>
         (case dwarf_formref_die attr of Some r \<Rightarrow> (0, Some r) | None \<Rightarrow> (- 1, None)))"

text \<open>\<^verbatim>\<open>dwarf_flag\<close>: \<open>None\<close> stands for a return value other than 0.\<close>

definition dwarf_flag :: "die \<Rightarrow> dw_at \<Rightarrow> bool option" where
  "dwarf_flag d name =
    (case dwarf_attr_integrate d name of
       None \<Rightarrow> Some False
     | Some attr \<Rightarrow> dwarf_formflag attr)"

definition drgn_type_from_dwarf ::
  "resolver \<Rightarrow> drgn_dwarf_info_cache \<Rightarrow> die_addr
    \<Rightarrow> drgn_dwarf_info_cache \<times> drgn_qualified_type result" where
  "drgn_type_from_dwarf rec dicache d =
    (case rec dicache d True None of
       (dicache', Inl err) \<Rightarrow> (dicache', Inl err)
     | (dicache', Inr (ret, cell)) \<Rightarrow> (dicache', Inr ret))"

definition drgn_type_from_dwarf_thunk_evaluate_fn ::
  "resolver \<Rightarrow> drgn_dwarf_info_cache \<Rightarrow> die_addr \<Rightarrow> bool
    \<Rightarrow> drgn_dwarf_info_cache \<times> drgn_qualified_type result" where
  "drgn_type_from_dwarf_thunk_evaluate_fn rec dicache d can_be_incomplete_array =
    (case rec dicache d can_be_incomplete_array None of
       (dicache', Inl err) \<Rightarrow> (dicache', Inl err)
     | (dicache', Inr (ret, cell)) \<Rightarrow> (dicache', Inr ret))"

text \<open>
  Modelled from the spec: \<^verbatim>\<open>drgn_lazy_type_evaluate\<close> (\<^verbatim>\<open>type.c\<close>). A thunk is
  evaluated through its \<^verbatim>\<open>evaluate_fn\<close> and, on success, replaced by the result
  in its holder.
\<close>

definition drgn_lazy_type_evaluate ::
  "resolver \<Rightarrow> drgn_dwarf_info_cache \<Rightarrow> drgn_lazy_type
    \<Rightarrow> drgn_dwarf_info_cache \<times> (drgn_qualified_type \<times> drgn_lazy_type) result" where
  "drgn_lazy_type_evaluate rec dicache lazy =
    (case lazy of
       Evaluated t q \<Rightarrow> (dicache, Inr (\<lparr>type = t, qualifiers = q\<rparr>, lazy))
     | Thunk d can_be_incomplete_array \<Rightarrow>
         (case drgn_type_from_dwarf_thunk_evaluate_fn rec dicache d can_be_incomplete_array of
            (dicache', Inl err) \<Rightarrow> (dicache', Inl err)
          | (dicache', Inr ret) \<Rightarrow>
              (dicache', Inr (ret, Evaluated (type ret) (qualifiers ret)))))"

definition drgn_lazy_type_from_dwarf ::
  "drgn_dwarf_info_cache \<Rightarrow> die \<Rightarrow> bool \<Rightarrow> drgn_dwarf_info_cache \<times> drgn_lazy_type result" where
  "drgn_lazy_type_from_dwarf dicache parent_die can_be_incomplete_array =
    (case dwarf_attr_integrate parent_die DW_AT_type of
       None \<Rightarrow> (dicache, Inl (Error DRGN_ERROR_OTHER))
     | Some attr \<Rightarrow>
         (case dwarf_formref_die attr of
            None \<Rightarrow> (dicache, Inl (Error DRGN_ERROR_OTHER))
          | Some type_die \<Rightarrow>
              (case alloc dicache of
                 (dicache', False) \<Rightarrow> (dicache', Inl (Error DRGN_ERROR_NO_MEMORY))
               | (dicache', True) \<Rightarrow> (dicache', Inr (Thunk type_die can_be_incomplete_array)))))"

definition drgn_type_from_dwarf_child ::
  "resolver \<Rightarrow> dwarf_image \<Rightarrow> drgn_dwarf_info_cache \<Rightarrow> die_addr \<Rightarrow> drgn_language option
    \<Rightarrow> bool \<Rightarrow> bool \<Rightarrow> bool option
    \<Rightarrow> drgn_dwarf_info_cache \<times> (drgn_qualified_type \<times> bool option) result" where
  "drgn_type_from_dwarf_child rec img dicache parent_die parent_lang can_be_void
      can_be_incomplete_array is_incomplete_array_ret =
    (case dwarf_attr_integrate (dies img parent_die) DW_AT_type of
       None \<Rightarrow>
         (if can_be_void then
            (case (case parent_lang of
                     None \<Rightarrow> drgn_language_from_die (dies img parent_die)
                   | Some l \<Rightarrow> Inr (Some l)) of
               Inl err \<Rightarrow> (dicache, Inl err)
             | Inr lang \<Rightarrow>
                 (dicache, Inr (\<lparr>type = drgn_void_type lang, qualifiers = 0\<rparr>,
                    is_incomplete_array_ret)))
          else (dicache, Inl (Error DRGN_ERROR_OTHER)))
     | Some attr \<Rightarrow>
         (case dwarf_formref_die attr of
            None \<Rightarrow> (dicache, Inl (Error DRGN_ERROR_OTHER))
          | Some type_die \<Rightarrow>
              rec dicache type_die can_be_incomplete_array is_incomplete_array_ret))"

definition base_type_encoding_switch ::
  "resolver \<Rightarrow> dwarf_image \<Rightarrow> drgn_dwarf_info_cache \<Rightarrow> die_addr \<Rightarrow> drgn_language option
    \<Rightarrow> string \<Rightarrow> 64 word \<Rightarrow> 64 word \<Rightarrow> drgn_dwarf_info_cache \<times> drgn_type result" where
  "base_type_encoding_switch rec img dicache d lang name sz encoding =
    (if encoding = DW_ATE_boolean then drgn_bool_type_create dicache name sz lang
     else if encoding = DW_ATE_float then drgn_float_type_create dicache name sz lang
     else if encoding = DW_ATE_signed \<or> encoding = DW_ATE_signed_char then
       drgn_int_type_create dicache name sz True lang
     else if encoding = DW_ATE_unsigned \<or> encoding = DW_ATE_unsigned_char then
       drgn_int_type_create dicache name sz False lang
     else if encoding = DW_ATE_complex_float then
       (case dwarf_type (dies img d) of
          (r, Some child) \<Rightarrow>
            (if r \<noteq> 0 then (dicache, Inl (Error DRGN_ERROR_OTHER))
             else
               (case drgn_type_from_dwarf rec dicache child of
                  (dicache', Inl err) \<Rightarrow> (dicache', Inl err)
                | (dicache', Inr real_type) \<Rightarrow>
                    (if drgn_type_kind (type real_type) \<noteq> DRGN_TYPE_FLOAT \<and>
                        drgn_type_kind (type real_type) \<noteq> DRGN_TYPE_INT
                     then (dicache', Inl (Error DRGN_ERROR_OTHER))
                     else drgn_complex_type_create dicache' name sz (type real_type) lang)))
        | (r, None) \<Rightarrow> (dicache, Inl (Error DRGN_ERROR_OTHER)))
     else (dicache, Inl (Error DRGN_ERROR_OTHER)))"

definition drgn_base_type_from_dwarf ::
  "resolver \<Rightarrow> dwarf_image \<Rightarrow> drgn_dwarf_info_cache \<Rightarrow> die_addr \<Rightarrow> drgn_language option
    \<Rightarrow> drgn_dwarf_info_cache \<times> drgn_type result" where
  "drgn_base_type_from_dwarf rec img dicache d lang =
    (case dwarf_diename (dies img d) of
       None \<Rightarrow> (dicache, Inl (Error DRGN_ERROR_OTHER))
     | Some name \<Rightarrow>
         (case (case dwarf_attr_integrate (dies img d) DW_AT_encoding of
                  None \<Rightarrow> None
                | Some attr \<Rightarrow> dwarf_formudata attr) of
            None \<Rightarrow> (dicache, Inl (Error DRGN_ERROR_OTHER))
          | Some encoding \<Rightarrow>
              (let sz = dwarf_bytesize (dies img d) in
               if sz = - 1 then (dicache, Inl (Error DRGN_ERROR_OTHER))
               else base_type_encoding_switch rec img dicache d lang name (word_of_int sz)
                      encoding)))"

definition drgn_dwarf_info_cache_find_complete ::
  "resolver \<Rightarrow> dwarf_image \<Rightarrow> drgn_dwarf_info_cache \<Rightarrow> dw_tag \<Rightarrow> string
    \<Rightarrow> drgn_dwarf_info_cache \<times> drgn_type result" where
  "drgn_dwarf_info_cache_find_complete rec img dicache tag name =
    (let it = drgn_dwarf_index_iterator_init img name tag in
     case drgn_dwarf_index_iterator_next it of
       Inl err \<Rightarrow> (dicache, Inl err)
     | Inr (d, it') \<Rightarrow>
         (case drgn_dwarf_index_iterator_next it' of
            Inr another \<Rightarrow> (dicache, Inl (Error DRGN_ERROR_STOP))
          | Inl err \<Rightarrow>
              (if err \<noteq> Error DRGN_ERROR_STOP then (dicache, Inl err)
               else
                 (case drgn_type_from_dwarf rec dicache d of
                    (dicache', Inl err') \<Rightarrow> (dicache', Inl err')
                  | (dicache', Inr qualified_type) \<Rightarrow>
                      (dicache', Inr (type qualified_type))))))"

text \<open>
  The block of \<^verbatim>\<open>parse_member_offset\<close> that finds the byte size of a legacy
  bit field on a little-endian target: \<^verbatim>\<open>DW_AT_byte_size\<close> of the member, or the
  size of the member's type, which evaluates the thunk.
\<close>

definition member_byte_size ::
  "resolver \<Rightarrow> drgn_dwarf_info_cache \<Rightarrow> die \<Rightarrow> drgn_lazy_type
    \<Rightarrow> drgn_dwarf_info_cache \<times> (64 word \<times> drgn_lazy_type) result" where
  "member_byte_size rec dicache d member_type =
    (case dwarf_attr_integrate d DW_AT_byte_size of
       Some attr \<Rightarrow>
         (case dwarf_formudata attr of
            None \<Rightarrow> (dicache, Inl (Error DRGN_ERROR_OTHER))
          | Some word \<Rightarrow> (dicache, Inr (word, member_type)))
     | None \<Rightarrow>
         (case drgn_lazy_type_evaluate rec dicache member_type of
            (dicache', Inl err) \<Rightarrow> (dicache', Inl err)
          | (dicache', Inr (containing_type, member_type')) \<Rightarrow>
              (if \<not> drgn_type_has_size (type containing_type)
               then (dicache', Inl (Error DRGN_ERROR_OTHER))
               else (dicache', Inr (drgn_type_size (type containing_type), member_type')))))"

definition parse_member_offset ::
  "resolver \<Rightarrow> drgn_dwarf_info_cache \<Rightarrow> die \<Rightarrow> drgn_lazy_type \<Rightarrow> 64 word \<Rightarrow> bool
    \<Rightarrow> drgn_dwarf_info_cache \<times> (64 word \<times> drgn_lazy_type) result" where
  "parse_member_offset rec dicache d member_type bit_field_size little_endian =
    (case dwarf_attr_integrate d DW_AT_data_bit_offset of
       Some attr \<Rightarrow>
         (case dwarf_formudata attr of
            None \<Rightarrow> (dicache, Inl (Error DRGN_ERROR_OTHER))
          | Some bit_offset \<Rightarrow> (dicache, Inr (bit_offset, member_type)))
     | None \<Rightarrow>
         (case (case dwarf_attr_integrate d DW_AT_data_member_location of
                  Some attr \<Rightarrow>
                    (case dwarf_formudata attr of
                       None \<Rightarrow> Inl (Error DRGN_ERROR_OTHER)
                     | Some byte_offset \<Rightarrow> Inr (8 * byte_offset))
                | None \<Rightarrow> Inr 0) of
            Inl err \<Rightarrow> (dicache, Inl err)
          | Inr ret \<Rightarrow>
              (case dwarf_attr_integrate d DW_AT_bit_offset of
                 None \<Rightarrow> (dicache, Inr (ret, member_type))
               | Some attr \<Rightarrow>
                   (case dwarf_formudata attr of
                      None \<Rightarrow> (dicache, Inl (Error DRGN_ERROR_OTHER))
                    | Some bit_offset \<Rightarrow>
                        (if little_endian then
                           (case member_byte_size rec dicache d member_type of
                              (dicache', Inl err) \<Rightarrow> (dicache', Inl err)
                            | (dicache', Inr (byte_size, member_type')) \<Rightarrow>
                                (dicache',
                                 Inr (ret + (8 * byte_size - bit_offset - bit_field_size),
                                      member_type')))
                         else (dicache, Inr (ret + bit_offset, member_type)))))))"

text \<open>
  The compound type builder is the list of the members added so far;
  \<^verbatim>\<open>builder.members.size > 0\<close> is \<open>builder \<noteq> []\<close>.
\<close>

definition parse_member ::
  "resolver \<Rightarrow> drgn_dwarf_info_cache \<Rightarrow> die \<Rightarrow> bool \<Rightarrow> bool \<Rightarrow> drgn_type_member list
    \<Rightarrow> drgn_dwarf_info_cache \<times> drgn_type_member list result" where
  "parse_member rec dicache d little_endian can_be_incomplete_array builder =
    (case (case dwarf_attr_integrate d DW_AT_name of
             Some attr \<Rightarrow>
               (case dwarf_formstring attr of
                  None \<Rightarrow> Inl (Error DRGN_ERROR_OTHER)
                | Some s \<Rightarrow> Inr (Some s))
           | None \<Rightarrow> Inr None) of
       Inl err \<Rightarrow> (dicache, Inl err)
     | Inr name \<Rightarrow>
         (case (case dwarf_attr_integrate d DW_AT_bit_size of
                  Some attr \<Rightarrow>
                    (case dwarf_formudata attr of
                       None \<Rightarrow> Inl (Error DRGN_ERROR_OTHER)
                     | Some bit_size \<Rightarrow> Inr bit_size)
                | None \<Rightarrow> Inr 0) of
            Inl err \<Rightarrow> (dicache, Inl err)
          | Inr bit_field_size \<Rightarrow>
              (case drgn_lazy_type_from_dwarf dicache d can_be_incomplete_array of
                 (dicache', Inl err) \<Rightarrow> (dicache', Inl err)
               | (dicache', Inr member_type) \<Rightarrow>
                   (case parse_member_offset rec dicache' d member_type bit_field_size
                           little_endian of
                      (dicache'', Inl err) \<Rightarrow> (dicache'', Inl err)
                    | (dicache'', Inr (bit_offset, member_type')) \<Rightarrow>
                        (dicache'',
                         Inr (builder @ [Member member_type' name bit_offset bit_field_size]))))))"

text \<open>
  The loop over the children of a compound DIE. \<open>member\<close> is the last
  \<^verbatim>\<open>DW_TAG_member\<close> child seen and not yet parsed (\<open>None\<close>: \<^verbatim>\<open>member.addr\<close> is
  null); a member is parsed, with \<^verbatim>\<open>can_be_incomplete_array = false\<close>, when the
  next one is found.
\<close>

fun compound_children_loop ::
  "resolver \<Rightarrow> dwarf_image \<Rightarrow> drgn_dwarf_info_cache \<Rightarrow> bool \<Rightarrow> die_addr list
    \<Rightarrow> die_addr option \<Rightarrow> drgn_type_member list
    \<Rightarrow> drgn_dwarf_info_cache \<times> (die_addr option \<times> drgn_type_member list) result" where
  "compound_children_loop rec img dicache little_endian [] member builder =
    (dicache, Inr (member, builder))"
| "compound_children_loop rec img dicache little_endian (child # rest) member builder =
    (if dwarf_tag (dies img child) = DW_TAG_member then
       (case member of
          Some m \<Rightarrow>
            (case parse_member rec dicache (dies img m) little_endian False builder of
               (dicache', Inl err) \<Rightarrow> (dicache', Inl err)
             | (dicache', Inr builder') \<Rightarrow>
                 compound_children_loop rec img dicache' little_endian rest (Some child) builder')
        | None \<Rightarrow>
            compound_children_loop rec img dicache little_endian rest (Some child) builder)
     else compound_children_loop rec img dicache little_endian rest member builder)"

definition compound_dw_tag :: "type_kind \<Rightarrow> dw_tag option" where
  "compound_dw_tag kind =
    (case kind of
       DRGN_TYPE_STRUCT \<Rightarrow> Some DW_TAG_structure_type
     | DRGN_TYPE_UNION \<Rightarrow> Some DW_TAG_union_type
     | DRGN_TYPE_CLASS \<Rightarrow> Some DW_TAG_class_type
     | _ \<Rightarrow> None)"

text \<open>The name of a compound or enumeration DIE: absent, invalid (\<open>Inl\<close>) or a string.\<close>

definition die_tag_name :: "die \<Rightarrow> string option result" where
  "die_tag_name d =
    (case dwarf_attr_integrate d DW_AT_name of
       Some attr \<Rightarrow>
         (case dwarf_formstring attr of
            None \<Rightarrow> Inl (Error DRGN_ERROR_OTHER)
          | Some s \<Rightarrow> Inr (Some s))
     | None \<Rightarrow> Inr None)"

text \<open>
  The part of \<^verbatim>\<open>drgn_compound_type_from_dwarf\<close> for a DIE that is no declaration
  (from \<^verbatim>\<open>dwarf_bytesize\<close> on).
\<close>

definition compound_type_definition ::
  "resolver \<Rightarrow> dwarf_image \<Rightarrow> drgn_dwarf_info_cache \<Rightarrow> die_addr \<Rightarrow> drgn_language option
    \<Rightarrow> type_kind \<Rightarrow> string option \<Rightarrow> drgn_dwarf_info_cache \<times> drgn_type result" where
  "compound_type_definition rec img dicache d lang kind tag =
    (let sz = dwarf_bytesize (dies img d) in
     if sz = - 1 then (dicache, Inl (Error DRGN_ERROR_OTHER))
     else
       (let little_endian =
              (case dwarf_die_is_little_endian (dies img d) False of
                 Inr b \<Rightarrow> b | Inl err \<Rightarrow> False) in
        case compound_children_loop rec img dicache little_endian
               (die_children (dies img d)) None [] of
          (dicache', Inl err) \<Rightarrow> (dicache', Inl err)
        | (dicache', Inr (member, builder)) \<Rightarrow>
            (if \<not> die_children_ok (dies img d)
             then (dicache', Inl (Error DRGN_ERROR_OTHER))
             else
               (case (case member of
                        Some m \<Rightarrow>
                          parse_member rec dicache' (dies img m) little_endian
                            (kind \<noteq> DRGN_TYPE_UNION \<and> builder \<noteq> []) builder
                      | None \<Rightarrow> (dicache', Inr builder)) of
                  (dicache'', Inl err) \<Rightarrow> (dicache'', Inl err)
                | (dicache'', Inr builder') \<Rightarrow>
                    drgn_compound_type_create dicache'' kind builder' tag (word_of_int sz)
                      lang))))"

definition drgn_compound_type_from_dwarf ::
  "resolver \<Rightarrow> dwarf_image \<Rightarrow> drgn_dwarf_info_cache \<Rightarrow> die_addr \<Rightarrow> drgn_language option
    \<Rightarrow> type_kind \<Rightarrow> drgn_dwarf_info_cache \<times> drgn_type result" where
  "drgn_compound_type_from_dwarf rec img dicache d lang kind =
    (case compound_dw_tag kind of
       None \<Rightarrow> (dicache, Inl Unreachable)
     | Some dw_tag \<Rightarrow>
         (case die_tag_name (dies img d) of
            Inl err \<Rightarrow> (dicache, Inl err)
          | Inr tag \<Rightarrow>
              (case dwarf_flag (dies img d) DW_AT_declaration of
                 None \<Rightarrow> (dicache, Inl (Error DRGN_ERROR_OTHER))
               | Some declaration \<Rightarrow>
                   (if declaration \<and> tag \<noteq> None then
                      (case drgn_dwarf_info_cache_find_complete rec img dicache dw_tag
                              (the tag) of
                         (dicache', Inr t) \<Rightarrow> (dicache', Inr t)
                       | (dicache', Inl err) \<Rightarrow>
                           (if err \<noteq> Error DRGN_ERROR_STOP then (dicache', Inl err)
                            else drgn_incomplete_compound_type_create dicache' kind tag lang))
                    else if declaration then
                      drgn_incomplete_compound_type_create dicache kind tag lang
                    else compound_type_definition rec img dicache d lang kind tag))))"

text \<open>The enum type builder is the list of the enumerators: a name and the 64-bit value.\<close>

definition parse_enumerator ::
  "die \<Rightarrow> (string \<times> 64 word) list \<Rightarrow> bool \<Rightarrow> ((string \<times> 64 word) list \<times> bool) result" where
  "parse_enumerator d builder is_signed =
    (case dwarf_diename d of
       None \<Rightarrow> Inl (Error DRGN_ERROR_OTHER)
     | Some name \<Rightarrow>
         (case dwarf_attr_integrate d DW_AT_const_value of
            None \<Rightarrow> Inl (Error DRGN_ERROR_OTHER)
          | Some attr \<Rightarrow>
              (if form attr = DW_FORM_sdata \<or> form attr = DW_FORM_implicit_const then
                 (case dwarf_formsdata attr of
                    None \<Rightarrow> Inl (Error DRGN_ERROR_OTHER)
                  | Some svalue \<Rightarrow>
                      Inr (builder @ [(name, svalue)],
                           (if sint svalue < 0 then True else is_signed)))
               else
                 (case dwarf_formudata attr of
                    None \<Rightarrow> Inl (Error DRGN_ERROR_OTHER)
                  | Some uvalue \<Rightarrow> Inr (builder @ [(name, uvalue)], is_signed)))))"

fun enum_children_loop ::
  "dwarf_image \<Rightarrow> die_addr list \<Rightarrow> (string \<times> 64 word) list \<Rightarrow> bool
    \<Rightarrow> ((string \<times> 64 word) list \<times> bool) result" where
  "enum_children_loop img [] builder is_signed = Inr (builder, is_signed)"
| "enum_children_loop img (child # rest) builder is_signed =
    (if dwarf_tag (dies img child) = DW_TAG_enumerator then
       (case parse_enumerator (dies img child) builder is_signed of
          Inl err \<Rightarrow> Inl err
        | Inr (builder', is_signed') \<Rightarrow> enum_children_loop img rest builder' is_signed')
     else enum_children_loop img rest builder is_signed)"

definition enum_compatible_type_fallback ::
  "drgn_dwarf_info_cache \<Rightarrow> die \<Rightarrow> bool \<Rightarrow> drgn_language option
    \<Rightarrow> drgn_dwarf_info_cache \<times> drgn_type result" where
  "enum_compatible_type_fallback dicache d is_signed lang =
    (let sz = dwarf_bytesize d in
     if sz = - 1 then (dicache, Inl (Error DRGN_ERROR_OTHER))
     else drgn_int_type_create dicache ''<unknown>'' (word_of_int sz) is_signed lang)"

text \<open>
  The part of \<^verbatim>\<open>drgn_enum_type_from_dwarf\<close> for a DIE that is no declaration.
\<close>

definition enum_type_definition ::
  "resolver \<Rightarrow> dwarf_image \<Rightarrow> drgn_dwarf_info_cache \<Rightarrow> die_addr \<Rightarrow> drgn_language option
    \<Rightarrow> string option \<Rightarrow> drgn_dwarf_info_cache \<times> drgn_type result" where
  "enum_type_definition rec img dicache d lang tag =
    (case enum_children_loop img (die_children (dies img d)) [] False of
       Inl err \<Rightarrow> (dicache, Inl err)
     | Inr (builder, is_signed) \<Rightarrow>
         (if \<not> die_children_ok (dies img d) then (dicache, Inl (Error DRGN_ERROR_OTHER))
          else
            (case (case dwarf_type (dies img d) of
                     (r, child) \<Rightarrow>
                       (if r = - 1 then (dicache, Inl (Error DRGN_ERROR_OTHER))
                        else if r \<noteq> 0 then
                          enum_compatible_type_fallback dicache (dies img d) is_signed lang
                        else
                          (case drgn_type_from_dwarf rec dicache (the child) of
                             (dicache', Inl err) \<Rightarrow> (dicache', Inl err)
                           | (dicache', Inr qualified_compatible_type) \<Rightarrow>
                               (if drgn_type_kind (type qualified_compatible_type)
                                     \<noteq> DRGN_TYPE_INT
                                then (dicache', Inl (Error DRGN_ERROR_OTHER))
                                else (dicache', Inr (type qualified_compatible_type)))))) of
               (dicache', Inl err) \<Rightarrow> (dicache', Inl err)
             | (dicache', Inr compatible_type) \<Rightarrow>
                 drgn_enum_type_create dicache' builder tag compatible_type lang)))"

definition drgn_enum_type_from_dwarf ::
  "resolver \<Rightarrow> dwarf_image \<Rightarrow> drgn_dwarf_info_cache \<Rightarrow> die_addr \<Rightarrow> drgn_language option
    \<Rightarrow> drgn_dwarf_info_cache \<times> drgn_type result" where
  "drgn_enum_type_from_dwarf rec img dicache d lang =
    (case die_tag_name (dies img d) of
       Inl err \<Rightarrow> (dicache, Inl err)
     | Inr tag \<Rightarrow>
         (case dwarf_flag (dies img d) DW_AT_declaration of
            None \<Rightarrow> (dicache, Inl (Error DRGN_ERROR_OTHER))
          | Some declaration \<Rightarrow>
              (if declaration \<and> tag \<noteq> None then
                 (case drgn_dwarf_info_cache_find_complete rec img dicache
                         DW_TAG_enumeration_type (the tag) of
                    (dicache', Inr t) \<Rightarrow> (dicache', Inr t)
                  | (dicache', Inl err) \<Rightarrow>
                      (if err \<noteq> Error DRGN_ERROR_STOP then (dicache', Inl err)
                       else drgn_incomplete_enum_type_create dicache' tag lang))
               else if declaration then drgn_incomplete_enum_type_create dicache tag lang
               else enum_type_definition rec img dicache d lang tag)))"

definition drgn_typedef_type_from_dwarf ::
  "resolver \<Rightarrow> dwarf_image \<Rightarrow> drgn_dwarf_info_cache \<Rightarrow> die_addr \<Rightarrow> drgn_language option
    \<Rightarrow> bool \<Rightarrow> bool option \<Rightarrow> drgn_dwarf_info_cache \<times> (drgn_type \<times> bool option) result" where
  "drgn_typedef_type_from_dwarf rec img dicache d lang can_be_incomplete_array
      is_incomplete_array_ret =
    (case dwarf_diename (dies img d) of
       None \<Rightarrow> (dicache, Inl (Error DRGN_ERROR_OTHER))
     | Some name \<Rightarrow>
         (case drgn_type_from_dwarf_child rec img dicache d (drgn_language_or_default lang)
                 True can_be_incomplete_array is_incomplete_array_ret of
            (dicache', Inl err) \<Rightarrow> (dicache', Inl err)
          | (dicache', Inr (aliased_type, cell)) \<Rightarrow>
              (case drgn_typedef_type_create dicache' name aliased_type lang of
                 (dicache'', Inl err) \<Rightarrow> (dicache'', Inl err)
               | (dicache'', Inr t) \<Rightarrow> (dicache'', Inr (t, cell)))))"

definition drgn_pointer_type_from_dwarf ::
  "resolver \<Rightarrow> dwarf_image \<Rightarrow> drgn_dwarf_info_cache \<Rightarrow> die_addr \<Rightarrow> drgn_language option
    \<Rightarrow> drgn_dwarf_info_cache \<times> drgn_type result" where
  "drgn_pointer_type_from_dwarf rec img dicache d lang =
    (case drgn_type_from_dwarf_child rec img dicache d (drgn_language_or_default lang)
            True True None of
       (dicache', Inl err) \<Rightarrow> (dicache', Inl err)
     | (dicache', Inr (referenced_type, cell)) \<Rightarrow>
         (case (case dwarf_attr_integrate (dies img d) DW_AT_byte_size of
                  Some attr \<Rightarrow>
                    (case dwarf_formudata attr of
                       None \<Rightarrow> Inl (Error DRGN_ERROR_OTHER)
                     | Some word \<Rightarrow> Inr word)
                | None \<Rightarrow>
                    (case drgn_program_word_size img of
                       Inl err \<Rightarrow> Inl err
                     | Inr word_size \<Rightarrow> Inr (ucast word_size))) of
            Inl err \<Rightarrow> (dicache', Inl err)
          | Inr sz \<Rightarrow> drgn_pointer_type_create dicache' referenced_type sz lang))"

record array_dimension =
  length_dim :: "64 word"
  is_complete :: bool

text \<open>
  \<^verbatim>\<open>subrange_length\<close> writes into the vector entry it is given. The entry is
  fresh memory; \<^verbatim>\<open>length\<close> is read only where \<^verbatim>\<open>is_complete\<close> was set.
\<close>

definition subrange_length :: "die \<Rightarrow> array_dimension \<Rightarrow> array_dimension result" where
  "subrange_length d dimension =
    (case (case dwarf_attr_integrate d DW_AT_upper_bound of
             Some attr \<Rightarrow> Some attr
           | None \<Rightarrow> dwarf_attr_integrate d DW_AT_count) of
       None \<Rightarrow> Inr (dimension\<lparr>is_complete := False\<rparr>)
     | Some attr \<Rightarrow>
         (case dwarf_formudata attr of
            None \<Rightarrow> Inl (Error DRGN_ERROR_OTHER)
          | Some word \<Rightarrow>
              (if code attr = DW_AT_upper_bound \<and> form attr = DW_FORM_sdata \<and> word = - 1
               then Inr (dimension\<lparr>is_complete := True, length_dim := 0\<rparr>)
               else if code attr = DW_AT_upper_bound then
                 (if word \<ge> UINT64_MAX then Inl (Error DRGN_ERROR_OVERFLOW)
                  else Inr (dimension\<lparr>is_complete := True, length_dim := word + 1\<rparr>))
               else
                 (if word > UINT64_MAX then Inl (Error DRGN_ERROR_OVERFLOW)
                  else Inr (dimension\<lparr>is_complete := True, length_dim := word\<rparr>)))))"

text \<open>
  The entry that \<^verbatim>\<open>array_dimension_vector_append_entry\<close> adds to the vector when the
  append succeeds.
\<close>

definition array_dimension_vector_append_entry :: "array_dimension" where
  "array_dimension_vector_append_entry = \<lparr>length_dim = 0, is_complete = False\<rparr>"

text \<open>
  The loop over the children of an array DIE. When the append of an entry fails the function
  leaves through \<^verbatim>\<open>goto out\<close> and returns \<^verbatim>\<open>err\<close> as it stands: never assigned, if
  no \<^verbatim>\<open>subrange_length\<close> has run yet, or else \<^verbatim>\<open>NULL\<close> from the last one, which
  reports success with \<^verbatim>\<open>*ret\<close> unset. Both are the failure \<open>Uninitialized\<close>.
\<close>

fun array_children_loop ::
  "dwarf_image \<Rightarrow> drgn_dwarf_info_cache \<Rightarrow> die_addr list \<Rightarrow> array_dimension list
    \<Rightarrow> drgn_dwarf_info_cache \<times> array_dimension list result" where
  "array_children_loop img dicache [] dimensions = (dicache, Inr dimensions)"
| "array_children_loop img dicache (child # rest) dimensions =
    (if dwarf_tag (dies img child) = DW_TAG_subrange_type then
       (case alloc dicache of
          (dicache', False) \<Rightarrow> (dicache', Inl Uninitialized)
        | (dicache', True) \<Rightarrow>
            (case subrange_length (dies img child) array_dimension_vector_append_entry of
               Inl err \<Rightarrow> (dicache', Inl err)
             | Inr dimension \<Rightarrow>
                 array_children_loop img dicache' rest (dimensions @ [dimension])))
     else array_children_loop img dicache rest dimensions)"

text \<open>
  The \<^verbatim>\<open>do ... while (dimensions.size)\<close> loop, over the dimensions in the order
  they are popped (last first). The vector holds an entry when the loop is entered.
\<close>

fun array_type_loop ::
  "drgn_dwarf_info_cache \<Rightarrow> drgn_language option \<Rightarrow> bool \<Rightarrow> array_dimension list
    \<Rightarrow> drgn_qualified_type \<Rightarrow> drgn_dwarf_info_cache \<times> drgn_type result" where
  "array_type_loop dicache lang can_be_incomplete_array [] element_type =
    (dicache, Inl Unreachable)"
| "array_type_loop dicache lang can_be_incomplete_array (dimension # dimensions) element_type =
    (case (if is_complete dimension then
             drgn_array_type_create dicache element_type (length_dim dimension) lang
           else if dimensions \<noteq> [] \<or> \<not> can_be_incomplete_array then
             drgn_array_type_create dicache element_type 0 lang
           else drgn_incomplete_array_type_create dicache element_type lang) of
       (dicache', Inl err) \<Rightarrow> (dicache', Inl err)
     | (dicache', Inr t) \<Rightarrow>
         (if dimensions \<noteq> [] then
            array_type_loop dicache' lang can_be_incomplete_array dimensions
              \<lparr>type = t, qualifiers = 0\<rparr>
          else (dicache', Inr t)))"

text \<open>
  \<^verbatim>\<open>drgn_array_type_from_dwarf\<close> returns the type and the value it stores through
  \<^verbatim>\<open>is_incomplete_array_ret\<close>, which its one caller points at its own entry. The
  entry appended for an array without a subrange child is allocated like the others; when
  that fails \<^verbatim>\<open>err\<close> has never been assigned.
\<close>

definition drgn_array_type_from_dwarf ::
  "resolver \<Rightarrow> dwarf_image \<Rightarrow> drgn_dwarf_info_cache \<Rightarrow> die_addr \<Rightarrow> drgn_language option
    \<Rightarrow> bool \<Rightarrow> drgn_dwarf_info_cache \<times> (drgn_type \<times> bool) result" where
  "drgn_array_type_from_dwarf rec img dicache d lang can_be_incomplete_array =
    (case array_children_loop img dicache (die_children (dies img d)) [] of
       (dicache1, Inl err) \<Rightarrow> (dicache1, Inl err)
     | (dicache1, Inr dims) \<Rightarrow>
         (if \<not> die_children_ok (dies img d) then (dicache1, Inl (Error DRGN_ERROR_OTHER))
          else
            (case (if dims = [] then
                     (case alloc dicache1 of
                        (dicache2, False) \<Rightarrow> (dicache2, Inl Uninitialized)
                      | (dicache2, True) \<Rightarrow>
                          (dicache2,
                           Inr [array_dimension_vector_append_entry\<lparr>is_complete := False\<rparr>]))
                   else (dicache1, Inr dims)) of
               (dicache2, Inl err) \<Rightarrow> (dicache2, Inl err)
             | (dicache2, Inr dimensions) \<Rightarrow>
                 (case drgn_type_from_dwarf_child rec img dicache2 d
                         (drgn_language_or_default lang) False False None of
                    (dicache', Inl err) \<Rightarrow> (dicache', Inl err)
                  | (dicache', Inr (element_type, cell)) \<Rightarrow>
                      (case array_type_loop dicache' lang can_be_incomplete_array
                              (rev dimensions) element_type of
                         (dicache'', Inl err) \<Rightarrow> (dicache'', Inl err)
                       | (dicache'', Inr t) \<Rightarrow>
                           (dicache'', Inr (t, \<not> is_complete (hd dimensions))))))))"

definition parse_formal_parameter ::
  "drgn_dwarf_info_cache \<Rightarrow> die \<Rightarrow> drgn_type_parameter list
    \<Rightarrow> drgn_dwarf_info_cache \<times> drgn_type_parameter list result" where
  "parse_formal_parameter dicache d builder =
    (case (case dwarf_attr_integrate d DW_AT_name of
             Some attr \<Rightarrow>
               (case dwarf_formstring attr of
                  None \<Rightarrow> Inl (Error DRGN_ERROR_OTHER)
                | Some s \<Rightarrow> Inr (Some s))
           | None \<Rightarrow> Inr None) of
       Inl err \<Rightarrow> (dicache, Inl err)
     | Inr name \<Rightarrow>
         (case drgn_lazy_type_from_dwarf dicache d True of
            (dicache', Inl err) \<Rightarrow> (dicache', Inl err)
          | (dicache', Inr parameter_type) \<Rightarrow>
              (dicache', Inr (builder @ [Parameter parameter_type name]))))"

fun function_children_loop ::
  "dwarf_image \<Rightarrow> drgn_dwarf_info_cache \<Rightarrow> die_addr list \<Rightarrow> drgn_type_parameter list \<Rightarrow> bool
    \<Rightarrow> drgn_dwarf_info_cache \<times> (drgn_type_parameter list \<times> bool) result" where
  "function_children_loop img dicache [] builder is_variadic =
    (dicache, Inr (builder, is_variadic))"
| "function_children_loop img dicache (child # rest) builder is_variadic =
    (case dwarf_tag (dies img child) of
       DW_TAG_formal_parameter \<Rightarrow>
         (if is_variadic then (dicache, Inl (Error DRGN_ERROR_OTHER))
          else
            (case parse_formal_parameter dicache (dies img child) builder of
               (dicache', Inl err) \<Rightarrow> (dicache', Inl err)
             | (dicache', Inr builder') \<Rightarrow>
                 function_children_loop img dicache' rest builder' is_variadic))
     | DW_TAG_unspecified_parameters \<Rightarrow>
         (if is_variadic then (dicache, Inl (Error DRGN_ERROR_OTHER))
          else function_children_loop img dicache rest builder True)
     | _ \<Rightarrow> function_children_loop img dicache rest builder is_variadic)"

definition drgn_function_type_from_dwarf ::
  "resolver \<Rightarrow> dwarf_image \<Rightarrow> drgn_dwarf_info_cache \<Rightarrow> die_addr \<Rightarrow> drgn_language option
    \<Rightarrow> drgn_dwarf_info_cache \<times> drgn_type result" where
  "drgn_function_type_from_dwarf rec img dicache d lang =
    (case function_children_loop img dicache (die_children (dies img d)) [] False of
       (dicache1, Inl err) \<Rightarrow> (dicache1, Inl err)
     | (dicache1, Inr (builder, is_variadic)) \<Rightarrow>
         (if \<not> die_children_ok (dies img d) then (dicache1, Inl (Error DRGN_ERROR_OTHER))
          else
            (case drgn_type_from_dwarf_child rec img dicache1 d (drgn_language_or_default lang)
                    True True None of
               (dicache', Inl err) \<Rightarrow> (dicache', Inl err)
             | (dicache', Inr (return_type, cell)) \<Rightarrow>
                 drgn_function_type_create dicache' builder return_type is_variadic lang)))"

subsection \<open>drgn\_type\_from\_dwarf\_internal\<close>

text \<open>
  The search of the memoization maps at the start of
  \<^verbatim>\<open>drgn_type_from_dwarf_internal\<close>: the entry the call returns, if any.
\<close>

definition dwarf_type_map_search ::
  "drgn_dwarf_info_cache \<Rightarrow> die_addr \<Rightarrow> bool \<Rightarrow> dwarf_type_map_value option" where
  "dwarf_type_map_search dicache key can_be_incomplete_array =
    (case map_tbl dicache key of
       None \<Rightarrow> None
     | Some entry \<Rightarrow>
         (if \<not> can_be_incomplete_array \<and> is_incomplete_array entry
          then cant_be_incomplete_array_map dicache key
          else Some entry))"

text \<open>
  The results of the cases of the \<^verbatim>\<open>switch\<close>: the type \<^verbatim>\<open>*ret\<close> and the value
  of \<^verbatim>\<open>entry.value.is_incomplete_array\<close> after the case. A qualifier case passes
  \<^verbatim>\<open>ret\<close> to \<^verbatim>\<open>drgn_type_from_dwarf_child\<close> with a null
  \<^verbatim>\<open>is_incomplete_array_ret\<close> and ORs its bit in; the other cases fill
  \<^verbatim>\<open>ret->type\<close> and leave \<^verbatim>\<open>ret->qualifiers\<close> at 0.
\<close>

definition qualifier_case ::
  "resolver \<Rightarrow> dwarf_image \<Rightarrow> drgn_dwarf_info_cache \<Rightarrow> die_addr \<Rightarrow> drgn_language option
    \<Rightarrow> 8 word \<Rightarrow> drgn_dwarf_info_cache \<times> (drgn_qualified_type \<times> bool) result" where
  "qualifier_case rec img dicache d lang qualifier =
    (case drgn_type_from_dwarf_child rec img dicache d (drgn_language_or_default lang)
            True True None of
       (dicache', Inl err) \<Rightarrow> (dicache', Inl err)
     | (dicache', Inr (ret, cell)) \<Rightarrow>
         (dicache', Inr (ret\<lparr>qualifiers := qualifiers ret OR qualifier\<rparr>, False)))"

definition unqualified_case ::
  "drgn_dwarf_info_cache \<times> drgn_type result
    \<Rightarrow> drgn_dwarf_info_cache \<times> (drgn_qualified_type \<times> bool) result" where
  "unqualified_case r =
    (case r of
       (dicache', Inl err) \<Rightarrow> (dicache', Inl err)
     | (dicache', Inr t) \<Rightarrow> (dicache', Inr (\<lparr>type = t, qualifiers = 0\<rparr>, False)))"

definition type_from_dwarf_switch ::
  "resolver \<Rightarrow> dwarf_image \<Rightarrow> drgn_dwarf_info_cache \<Rightarrow> die_addr \<Rightarrow> drgn_language option
    \<Rightarrow> bool \<Rightarrow> drgn_dwarf_info_cache \<times> (drgn_qualified_type \<times> bool) result" where
  "type_from_dwarf_switch rec img dicache d lang can_be_incomplete_array =
    (case dwarf_tag (dies img d) of
       DW_TAG_const_type \<Rightarrow> qualifier_case rec img dicache d lang DRGN_QUALIFIER_CONST
     | DW_TAG_restrict_type \<Rightarrow> qualifier_case rec img dicache d lang DRGN_QUALIFIER_RESTRICT
     | DW_TAG_volatile_type \<Rightarrow> qualifier_case rec img dicache d lang DRGN_QUALIFIER_VOLATILE
     | DW_TAG_atomic_type \<Rightarrow> qualifier_case rec img dicache d lang DRGN_QUALIFIER_ATOMIC
     | DW_TAG_base_type \<Rightarrow> unqualified_case (drgn_base_type_from_dwarf rec img dicache d lang)
     | DW_TAG_structure_type \<Rightarrow>
         unqualified_case (drgn_compound_type_from_dwarf rec img dicache d lang DRGN_TYPE_STRUCT)
     | DW_TAG_union_type \<Rightarrow>
         unqualified_case (drgn_compound_type_from_dwarf rec img dicache d lang DRGN_TYPE_UNION)
     | DW_TAG_class_type \<Rightarrow>
         unqualified_case (drgn_compound_type_from_dwarf rec img dicache d lang DRGN_TYPE_CLASS)
     | DW_TAG_enumeration_type \<Rightarrow>
         unqualified_case (drgn_enum_type_from_dwarf rec img dicache d lang)
     | DW_TAG_typedef \<Rightarrow>
         (case drgn_typedef_type_from_dwarf rec img dicache d lang can_be_incomplete_array
                 (Some False) of
            (dicache', Inl err) \<Rightarrow> (dicache', Inl err)
          | (dicache', Inr (t, cell)) \<Rightarrow>
              (dicache', Inr (\<lparr>type = t, qualifiers = 0\<rparr>,
                              (case cell of Some b \<Rightarrow> b | None \<Rightarrow> False))))
     | DW_TAG_pointer_type \<Rightarrow>
         unqualified_case (drgn_pointer_type_from_dwarf rec img dicache d lang)
     | DW_TAG_array_type \<Rightarrow>
         (case drgn_array_type_from_dwarf rec img dicache d lang can_be_incomplete_array of
            (dicache', Inl err) \<Rightarrow> (dicache', Inl err)
          | (dicache', Inr (t, b)) \<Rightarrow> (dicache', Inr (\<lparr>type = t, qualifiers = 0\<rparr>, b)))
     | DW_TAG_subroutine_type \<Rightarrow>
         unqualified_case (drgn_function_type_from_dwarf rec img dicache d lang)
     | DW_TAG_subprogram \<Rightarrow>
         unqualified_case (drgn_function_type_from_dwarf rec img dicache d lang)
     | _ \<Rightarrow> (dicache, Inl (Error DRGN_ERROR_OTHER)))"

text \<open>
  The insertion at the end: into \<^verbatim>\<open>cant_be_incomplete_array_map\<close> if the caller
  could not take an incomplete array and the type is one, else into \<^verbatim>\<open>map\<close>.
  \<open>dwarf_type_map_insert\<close> is the cache with the entry in the map chosen;
  \<^verbatim>\<open>dwarf_type_map_insert_searched\<close> may fail to allocate, and then returns -1 (\<open>False\<close>)
  and inserts nothing.
\<close>

definition dwarf_type_map_insert ::
  "drgn_dwarf_info_cache \<Rightarrow> die_addr \<Rightarrow> bool \<Rightarrow> dwarf_type_map_value \<Rightarrow> drgn_dwarf_info_cache" where
  "dwarf_type_map_insert dicache key can_be_incomplete_array entry =
    (if \<not> can_be_incomplete_array \<and> is_incomplete_array entry
     then dicache\<lparr>cant_be_incomplete_array_map :=
            (cant_be_incomplete_array_map dicache)(key \<mapsto> entry)\<rparr>
     else dicache\<lparr>map_tbl := (map_tbl dicache)(key \<mapsto> entry)\<rparr>)"

definition dwarf_type_map_insert_searched ::
  "drgn_dwarf_info_cache \<Rightarrow> die_addr \<Rightarrow> bool \<Rightarrow> dwarf_type_map_value
    \<Rightarrow> drgn_dwarf_info_cache \<times> bool" where
  "dwarf_type_map_insert_searched dicache key can_be_incomplete_array entry =
    (case alloc dicache of
       (dicache', False) \<Rightarrow> (dicache', False)
     | (dicache', True) \<Rightarrow>
         (dwarf_type_map_insert dicache' key can_be_incomplete_array entry, True))"

text \<open>
  The body of \<^verbatim>\<open>drgn_type_from_dwarf_internal\<close>, with \<open>rec\<close> for the calls of
  itself that the functions above make.
\<close>

definition type_from_dwarf_body :: "resolver \<Rightarrow> dwarf_image \<Rightarrow> resolver" where
  "type_from_dwarf_body rec img dicache d can_be_incomplete_array is_incomplete_array_ret =
    (if depth dicache \<ge> 1000 then (dicache, Inl (Error DRGN_ERROR_RECURSION))
     else
       (case dwarf_type_map_search dicache d can_be_incomplete_array of
          Some entry \<Rightarrow>
            (dicache,
             Inr (\<lparr>type = type entry, qualifiers = qualifiers entry\<rparr>, is_incomplete_array_ret))
        | None \<Rightarrow>
            (case drgn_language_from_die (dies img d) of
               Inl err \<Rightarrow> (dicache, Inl err)
             | Inr lang \<Rightarrow>
                 (case type_from_dwarf_switch rec img (dicache\<lparr>depth := depth dicache + 1\<rparr>)
                         d lang can_be_incomplete_array of
                    (dicache', r) \<Rightarrow>
                      (let dicache'' = dicache'\<lparr>depth := depth dicache' - 1\<rparr> in
                       case r of
                         Inl err \<Rightarrow> (dicache'', Inl err)
                       | Inr (ret, is_incomplete) \<Rightarrow>
                           (case dwarf_type_map_insert_searched dicache'' d
                                   can_be_incomplete_array
                                   \<lparr>type = type ret, qualifiers = qualifiers ret,
                                    is_incomplete_array = is_incomplete\<rparr> of
                              (dicache3, False) \<Rightarrow>
                                (dicache3, Inl (Error DRGN_ERROR_NO_MEMORY))
                            | (dicache3, True) \<Rightarrow>
                                (dicache3,
                                 Inr (ret,
                                      (case is_incomplete_array_ret of
                                         None \<Rightarrow> None
                                       | Some b \<Rightarrow> Some is_incomplete)))))))))"

text \<open>
  The recursion, by fuel: a call with fuel \<open>Suc n\<close> runs the body with calls of fuel
  \<open>n\<close> inside. Every nested call runs one level deeper and the body refuses to start
  at depth 1000, so \<open>Suc (1000 - depth)\<close> is fuel enough: that is
  \<^verbatim>\<open>drgn_type_from_dwarf_internal\<close>.
\<close>

primrec type_from_dwarf_fuel :: "nat \<Rightarrow> dwarf_image \<Rightarrow> resolver" where
  "type_from_dwarf_fuel 0 img = (\<lambda>dicache d c r. (dicache, Inl Fuel_Exhausted))"
| "type_from_dwarf_fuel (Suc n) img = type_from_dwarf_body (type_from_dwarf_fuel n img) img"

definition drgn_type_from_dwarf_internal :: "dwarf_image \<Rightarrow> resolver" where
  "drgn_type_from_dwarf_internal img dicache =
    type_from_dwarf_fuel (Suc (1000 - depth dicache)) img dicache"

subsection \<open>The enumerator of drgn\_dwarf\_object\_find\<close>

text \<open>
  Modelled from the spec: the object layer (\<^verbatim>\<open>object.c\<close>). An object set by
  \<^verbatim>\<open>drgn_object_set_signed\<close> or \<^verbatim>\<open>drgn_object_set_unsigned\<close> is its type,
  its value and its bit field size.
\<close>

datatype drgn_object =
    Signed_Object drgn_qualified_type "64 word" "64 word"
  | Unsigned_Object drgn_qualified_type "64 word" "64 word"

definition drgn_object_from_dwarf_enumerator ::
  "dwarf_image \<Rightarrow> drgn_dwarf_info_cache \<Rightarrow> die_addr \<Rightarrow> string
    \<Rightarrow> drgn_dwarf_info_cache \<times> drgn_object result" where
  "drgn_object_from_dwarf_enumerator img dicache d name =
    (case drgn_type_from_dwarf (drgn_type_from_dwarf_internal img) dicache d of
       (dicache', Inl err) \<Rightarrow> (dicache', Inl err)
     | (dicache', Inr qualified_type) \<Rightarrow>
         (case find (\<lambda>e. fst e = name) (drgn_type_enumerators (type qualified_type)) of
            Some e \<Rightarrow>
              (if drgn_enum_type_is_signed (type qualified_type)
               then (dicache', Inr (Signed_Object qualified_type (snd e) 0))
               else (dicache', Inr (Unsigned_Object qualified_type (snd e) 0)))
          | None \<Rightarrow> (dicache', Inl Unreachable)))"

section \<open>Which DIEs a call resolves\<close>

text \<open>
  The DIEs that parsing a DIE resolves at once, by a nested call of
  \<^verbatim>\<open>drgn_type_from_dwarf_internal\<close>: the \<^verbatim>\<open>DW_AT_type\<close> of a qualifier, typedef,
  pointer, array, function, complex base type or defined enumeration; the one complete
  definition the index has for a declaration; and the type of a member whose offset
  needs the size of that type. Every other member and every parameter is left as a thunk.
  \<open>okres\<close> and \<open>resolves\<close> state what a call guarantees: \<open>I\<close> of the cache it
  returns, \<open>E\<close> of its failure, and no success on a DIE of \<open>B\<close>.
\<close>

definition okres :: "(failure \<Rightarrow> bool) \<Rightarrow> ('a \<Rightarrow> bool) \<Rightarrow> 'a result \<Rightarrow> bool" where
  "okres E Q r = (case r of Inl e \<Rightarrow> E e | Inr a \<Rightarrow> Q a)"

definition type_ref :: "die \<Rightarrow> die_addr set" where
  "type_ref d =
    (case dwarf_attr_integrate d DW_AT_type of
       None \<Rightarrow> {}
     | Some attr \<Rightarrow> (case dwarf_formref_die attr of None \<Rightarrow> {} | Some t \<Rightarrow> {t}))"

definition die_encoding :: "die \<Rightarrow> 64 word option" where
  "die_encoding d =
    (case dwarf_attr_integrate d DW_AT_encoding of
       None \<Rightarrow> None
     | Some attr \<Rightarrow> dwarf_formudata attr)"

definition find_complete_refs :: "dwarf_image \<Rightarrow> die \<Rightarrow> dw_tag \<Rightarrow> die_addr set" where
  "find_complete_refs img d tag =
    (case die_tag_name d of
       Inr (Some name) \<Rightarrow>
         (if dwarf_flag d DW_AT_declaration = Some True
          then (case dindex img name tag of [x] \<Rightarrow> {x} | _ \<Rightarrow> {})
          else {})
     | _ \<Rightarrow> {})"

definition member_needs_type_size :: "die \<Rightarrow> bool \<Rightarrow> bool" where
  "member_needs_type_size m little_endian =
    (dwarf_attr_integrate m DW_AT_data_bit_offset = None \<and>
     dwarf_attr_integrate m DW_AT_bit_offset \<noteq> None \<and> little_endian \<and>
     dwarf_attr_integrate m DW_AT_byte_size = None)"

definition member_ref :: "die \<Rightarrow> bool \<Rightarrow> die_addr set" where
  "member_ref m little_endian =
    (if member_needs_type_size m little_endian then type_ref m else {})"

definition members_refs :: "dwarf_image \<Rightarrow> bool \<Rightarrow> die_addr list \<Rightarrow> die_addr set" where
  "members_refs img little_endian ms = (\<Union>m \<in> set ms. member_ref (dies img m) little_endian)"

definition pending_members :: "dwarf_image \<Rightarrow> die_addr option \<Rightarrow> die_addr list \<Rightarrow> die_addr list" where
  "pending_members img member cs =
    (case member of None \<Rightarrow> [] | Some m \<Rightarrow> [m]) @
    filter (\<lambda>c. dwarf_tag (dies img c) = DW_TAG_member) cs"

definition member_children :: "dwarf_image \<Rightarrow> die \<Rightarrow> die_addr list" where
  "member_children img d =
    filter (\<lambda>c. dwarf_tag (dies img c) = DW_TAG_member) (die_children d)"

definition compound_refs :: "dwarf_image \<Rightarrow> die \<Rightarrow> dw_tag \<Rightarrow> die_addr set" where
  "compound_refs img d tag =
    find_complete_refs img d tag \<union>
    (if dwarf_flag d DW_AT_declaration = Some False
     then members_refs img (die_elf_lsb d) (member_children img d) else {})"

definition eager :: "dwarf_image \<Rightarrow> die_addr \<Rightarrow> die_addr set" where
  "eager img a =
    (let d = dies img a in
     case dwarf_tag d of
       DW_TAG_const_type \<Rightarrow> type_ref d
     | DW_TAG_restrict_type \<Rightarrow> type_ref d
     | DW_TAG_volatile_type \<Rightarrow> type_ref d
     | DW_TAG_atomic_type \<Rightarrow> type_ref d
     | DW_TAG_base_type \<Rightarrow>
         (if die_encoding d = Some DW_ATE_complex_float then type_ref d else {})
     | DW_TAG_structure_type \<Rightarrow> compound_refs img d DW_TAG_structure_type
     | DW_TAG_union_type \<Rightarrow> compound_refs img d DW_TAG_union_type
     | DW_TAG_class_type \<Rightarrow> compound_refs img d DW_TAG_class_type
     | DW_TAG_enumeration_type \<Rightarrow>
         find_complete_refs img d DW_TAG_enumeration_type \<union>
         (if dwarf_flag d DW_AT_declaration = Some False then type_ref d else {})
     | DW_TAG_typedef \<Rightarrow> type_ref d
     | DW_TAG_pointer_type \<Rightarrow> type_ref d
     | DW_TAG_array_type \<Rightarrow> type_ref d
     | DW_TAG_subroutine_type \<Rightarrow> type_ref d
     | DW_TAG_subprogram \<Rightarrow> type_ref d
     | _ \<Rightarrow> {})"

definition resolves ::
  "resolver \<Rightarrow> (drgn_dwarf_info_cache \<Rightarrow> bool) \<Rightarrow> (failure \<Rightarrow> bool) \<Rightarrow> die_addr set
    \<Rightarrow> die_addr set \<Rightarrow> bool" where
  "resolves rec I E T B =
    ((\<forall>s t f c s' r. rec s t f c = (s', r) \<longrightarrow> I s \<longrightarrow> t \<in> T
         \<longrightarrow> I s' \<and> okres E (\<lambda>a. t \<notin> B) r) \<and>
     (\<forall>s n. I s \<longrightarrow> I (s\<lparr>types_created := n\<rparr>)) \<and>
     (\<forall>s s' ok. I s \<longrightarrow> alloc s = (s', ok) \<longrightarrow> I s') \<and>
     E (Error DRGN_ERROR_OTHER) \<and> E (Error DRGN_ERROR_OVERFLOW) \<and>
     E (Error DRGN_ERROR_INVALID_ARGUMENT) \<and> E (Error DRGN_ERROR_NO_MEMORY) \<and>
     E Uninitialized \<and> \<not> E (Error DRGN_ERROR_STOP))"

definition index_ref :: "dwarf_image \<Rightarrow> string \<Rightarrow> dw_tag \<Rightarrow> die_addr set" where
  "index_ref img name tag = (case dindex img name tag of [x] \<Rightarrow> {x} | _ \<Rightarrow> {})"

section \<open>Caches consistent with an image, and example images\<close>

text \<open>A subrange DIE whose only attribute is \<^verbatim>\<open>DW_AT_upper_bound\<close>.\<close>

definition upper_bound_die :: "dw_form \<Rightarrow> 64 word \<Rightarrow> die" where
  "upper_bound_die f n =
    \<lparr>die_tag = DW_TAG_subrange_type,
     die_attrs = [\<lparr>code = DW_AT_upper_bound, data = Constant f n\<rparr>],
     die_children = [], die_children_ok = True, die_elf_lsb = True,
     die_language = Some (Some DRGN_LANGUAGE_C)\<rparr>"

text \<open>
  A member with the legacy bit-field attributes: 4 bytes at byte offset 0,
  \<^verbatim>\<open>DW_AT_bit_offset\<close> 29 and \<^verbatim>\<open>DW_AT_bit_size\<close> 3.
\<close>

definition bit_field_member_die :: die where
  "bit_field_member_die =
    \<lparr>die_tag = DW_TAG_member,
     die_attrs = [\<lparr>code = DW_AT_name, data = String_Data ''flags''\<rparr>,
                  \<lparr>code = DW_AT_type, data = Reference 1\<rparr>,
                  \<lparr>code = DW_AT_byte_size, data = Constant DW_FORM_data 4\<rparr>,
                  \<lparr>code = DW_AT_bit_size, data = Constant DW_FORM_data 3\<rparr>,
                  \<lparr>code = DW_AT_bit_offset, data = Constant DW_FORM_data 29\<rparr>,
                  \<lparr>code = DW_AT_data_member_location, data = Constant DW_FORM_data 0\<rparr>],
     die_children = [], die_children_ok = True, die_elf_lsb = True,
     die_language = Some (Some DRGN_LANGUAGE_C)\<rparr>"


inductive_set sound :: "dwarf_image \<Rightarrow> die_addr set" for img :: dwarf_image where
  "(\<And>t. t \<in> eager img a \<Longrightarrow> t \<in> sound img) \<Longrightarrow> a \<in> sound img"

definition cache_inv :: "dwarf_image \<Rightarrow> drgn_dwarf_info_cache \<Rightarrow> bool" where
  "cache_inv img dicache =
    (\<forall>a. (map_tbl dicache a \<noteq> None \<or> cant_be_incomplete_array_map dicache a \<noteq> None)
        \<longrightarrow> a \<in> sound img)"

text \<open>
  A small image. DIE 1 is \<^verbatim>\<open>int\<close>; 2 an array of \<^verbatim>\<open>int\<close> with no subrange
  (\<^verbatim>\<open>int []\<close>); 3 its \<^verbatim>\<open>const\<close> qualification; 4 and 5 typedefs of it; 6 a
  structure whose first member (7) is a legacy bit field of \<^verbatim>\<open>int\<close> and whose
  second member (8) has no \<^verbatim>\<open>DW_AT_type\<close>; 9 a structure of an \<^verbatim>\<open>int\<close> member (10)
  and an \<^verbatim>\<open>int []\<close> member (11); 12 a union of the same two members; 13 a structure
  of the \<^verbatim>\<open>int []\<close> member alone.
\<close>

definition mk_die :: "dw_tag \<Rightarrow> Dwarf_Attribute list \<Rightarrow> die_addr list \<Rightarrow> die" where
  "mk_die tag attrs children =
    \<lparr>die_tag = tag, die_attrs = attrs, die_children = children, die_children_ok = True,
     die_elf_lsb = True, die_language = Some (Some DRGN_LANGUAGE_C)\<rparr>"

definition example_dies :: "die_addr \<Rightarrow> die" where
  "example_dies a =
    (if a = 1 then mk_die DW_TAG_base_type
       [\<lparr>code = DW_AT_name, data = String_Data ''int''\<rparr>,
        \<lparr>code = DW_AT_encoding, data = Constant DW_FORM_data 5\<rparr>,
        \<lparr>code = DW_AT_byte_size, data = Constant DW_FORM_data 4\<rparr>] []
     else if a = 2 then mk_die DW_TAG_array_type [\<lparr>code = DW_AT_type, data = Reference 1\<rparr>] []
     else if a = 3 then mk_die DW_TAG_const_type [\<lparr>code = DW_AT_type, data = Reference 2\<rparr>] []
     else if a = 4 then mk_die DW_TAG_typedef
       [\<lparr>code = DW_AT_name, data = String_Data ''T1''\<rparr>,
        \<lparr>code = DW_AT_type, data = Reference 2\<rparr>] []
     else if a = 5 then mk_die DW_TAG_typedef
       [\<lparr>code = DW_AT_name, data = String_Data ''T2''\<rparr>,
        \<lparr>code = DW_AT_type, data = Reference 2\<rparr>] []
     else if a = 6 then mk_die DW_TAG_structure_type
       [\<lparr>code = DW_AT_name, data = String_Data ''s''\<rparr>,
        \<lparr>code = DW_AT_byte_size, data = Constant DW_FORM_data 8\<rparr>] [7, 8]
     else if a = 7 then mk_die DW_TAG_member
       [\<lparr>code = DW_AT_name, data = String_Data ''f''\<rparr>,
        \<lparr>code = DW_AT_type, data = Reference 1\<rparr>,
        \<lparr>code = DW_AT_bit_size, data = Constant DW_FORM_data 3\<rparr>,
        \<lparr>code = DW_AT_bit_offset, data = Constant DW_FORM_data 29\<rparr>] []
     else if a = 8 then mk_die DW_TAG_member
       [\<lparr>code = DW_AT_name, data = String_Data ''g''\<rparr>] []
     else if a = 9 then mk_die DW_TAG_structure_type
       [\<lparr>code = DW_AT_name, data = String_Data ''v''\<rparr>,
        \<lparr>code = DW_AT_byte_size, data = Constant DW_FORM_data 4\<rparr>] [10, 11]
     else if a = 10 then mk_die DW_TAG_member
       [\<lparr>code = DW_AT_name, data = String_Data ''n''\<rparr>,
        \<lparr>code = DW_AT_type, data = Reference 1\<rparr>,
        \<lparr>code = DW_AT_data_member_location, data = Constant DW_FORM_data 0\<rparr>] []
     else if a = 11 then mk_die DW_TAG_member
       [\<lparr>code = DW_AT_name, data = String_Data ''a''\<rparr>,
        \<lparr>code = DW_AT_type, data = Reference 2\<rparr>,
        \<lparr>code = DW_AT_data_member_location, data = Constant DW_FORM_data 4\<rparr>] []
     else if a = 12 then mk_die DW_TAG_union_type
       [\<lparr>code = DW_AT_name, data = String_Data ''u''\<rparr>,
        \<lparr>code = DW_AT_byte_size, data = Constant DW_FORM_data 4\<rparr>] [10, 11]
     else if a = 13 then mk_die DW_TAG_structure_type
       [\<lparr>code = DW_AT_name, data = String_Data ''w''\<rparr>,
        \<lparr>code = DW_AT_byte_size, data = Constant DW_FORM_data 0\<rparr>] [11]
     else mk_die (DW_TAG_other 0) [] [])"

definition example_image :: dwarf_image where
  "example_image = \<lparr>dies = example_dies, dindex = (\<lambda>name tag. []), prog_word_size = Some 8\<rparr>"


text \<open>
  The members of a complete compound type as the specification describes them, to be compared
  with \<^verbatim>\<open>compound_type_definition\<close>: every \<^verbatim>\<open>DW_TAG_member\<close> child is parsed in order, each
  with a value of \<^verbatim>\<open>can_be_incomplete_array\<close> of its own. That value is false for every member
  but the last, and for the last it is true when the kind is not a union and another member
  precedes it.
\<close>

fun spec_parse_members ::
  "resolver \<Rightarrow> dwarf_image \<Rightarrow> drgn_dwarf_info_cache \<Rightarrow> bool \<Rightarrow> (die_addr \<times> bool) list
    \<Rightarrow> drgn_type_member list \<Rightarrow> drgn_dwarf_info_cache \<times> drgn_type_member list result" where
  "spec_parse_members rec img dicache little_endian [] builder = (dicache, Inr builder)"
| "spec_parse_members rec img dicache little_endian ((m, can_be_incomplete_array) # rest) builder =
    (case parse_member rec dicache (dies img m) little_endian can_be_incomplete_array builder of
       (dicache', Inl err) \<Rightarrow> (dicache', Inl err)
     | (dicache', Inr builder') \<Rightarrow> spec_parse_members rec img dicache' little_endian rest builder')"

definition spec_member_flags :: "type_kind \<Rightarrow> die_addr list \<Rightarrow> (die_addr \<times> bool) list" where
  "spec_member_flags kind ms =
    (if ms = [] then []
     else map (\<lambda>m. (m, False)) (butlast ms) @
          [(last ms, kind \<noteq> DRGN_TYPE_UNION \<and> butlast ms \<noteq> [])])"

text \<open>
  An image with a name index. DIE 1 is \<^verbatim>\<open>int\<close>. DIE 2 declares \<^verbatim>\<open>struct p\<close>, which 3 and 4
  both define; 5 declares \<^verbatim>\<open>struct q\<close>, which 6 alone defines. DIE 7 declares \<^verbatim>\<open>enum e\<close>,
  which 8 (with the enumerator 10, \<^verbatim>\<open>A\<close>) and 9 (with the enumerator 11, \<^verbatim>\<open>B\<close>) both define;
  12 declares \<^verbatim>\<open>enum g\<close>, which 13 alone defines, with both enumerators. The index holds the
  definitions under their names and tags.
\<close>

definition index_dies :: "die_addr \<Rightarrow> die" where
  "index_dies a =
    (if a = 1 then mk_die DW_TAG_base_type
       [\<lparr>code = DW_AT_name, data = String_Data ''int''\<rparr>,
        \<lparr>code = DW_AT_encoding, data = Constant DW_FORM_data 5\<rparr>,
        \<lparr>code = DW_AT_byte_size, data = Constant DW_FORM_data 4\<rparr>] []
     else if a = 2 then mk_die DW_TAG_structure_type
       [\<lparr>code = DW_AT_name, data = String_Data ''p''\<rparr>,
        \<lparr>code = DW_AT_declaration, data = Flag_Data True\<rparr>] []
     else if a = 3 then mk_die DW_TAG_structure_type
       [\<lparr>code = DW_AT_name, data = String_Data ''p''\<rparr>,
        \<lparr>code = DW_AT_byte_size, data = Constant DW_FORM_data 4\<rparr>] []
     else if a = 4 then mk_die DW_TAG_structure_type
       [\<lparr>code = DW_AT_name, data = String_Data ''p''\<rparr>,
        \<lparr>code = DW_AT_byte_size, data = Constant DW_FORM_data 8\<rparr>] []
     else if a = 5 then mk_die DW_TAG_structure_type
       [\<lparr>code = DW_AT_name, data = String_Data ''q''\<rparr>,
        \<lparr>code = DW_AT_declaration, data = Flag_Data True\<rparr>] []
     else if a = 6 then mk_die DW_TAG_structure_type
       [\<lparr>code = DW_AT_name, data = String_Data ''q''\<rparr>,
        \<lparr>code = DW_AT_byte_size, data = Constant DW_FORM_data 4\<rparr>] []
     else if a = 7 then mk_die DW_TAG_enumeration_type
       [\<lparr>code = DW_AT_name, data = String_Data ''e''\<rparr>,
        \<lparr>code = DW_AT_declaration, data = Flag_Data True\<rparr>] []
     else if a = 8 then mk_die DW_TAG_enumeration_type
       [\<lparr>code = DW_AT_name, data = String_Data ''e''\<rparr>,
        \<lparr>code = DW_AT_type, data = Reference 1\<rparr>] [10]
     else if a = 9 then mk_die DW_TAG_enumeration_type
       [\<lparr>code = DW_AT_name, data = String_Data ''e''\<rparr>,
        \<lparr>code = DW_AT_type, data = Reference 1\<rparr>] [11]
     else if a = 10 then mk_die DW_TAG_enumerator
       [\<lparr>code = DW_AT_name, data = String_Data ''A''\<rparr>,
        \<lparr>code = DW_AT_const_value, data = Constant DW_FORM_data 0\<rparr>] []
     else if a = 11 then mk_die DW_TAG_enumerator
       [\<lparr>code = DW_AT_name, data = String_Data ''B''\<rparr>,
        \<lparr>code = DW_AT_const_value, data = Constant DW_FORM_data 1\<rparr>] []
     else if a = 12 then mk_die DW_TAG_enumeration_type
       [\<lparr>code = DW_AT_name, data = String_Data ''g''\<rparr>,
        \<lparr>code = DW_AT_declaration, data = Flag_Data True\<rparr>] []
     else if a = 13 then mk_die DW_TAG_enumeration_type
       [\<lparr>code = DW_AT_name, data = String_Data ''g''\<rparr>,
        \<lparr>code = DW_AT_type, data = Reference 1\<rparr>] [10, 11]
     else mk_die (DW_TAG_other 0) [] [])"

definition index_image :: dwarf_image where
  "index_image =
    \<lparr>dies = index_dies,
     dindex = (\<lambda>name tag.
        if name = ''p'' \<and> tag = DW_TAG_structure_type then [3, 4]
        else if name = ''q'' \<and> tag = DW_TAG_structure_type then [6]
        else if name = ''e'' \<and> tag = DW_TAG_enumeration_type then [8, 9]
        else if name = ''g'' \<and> tag = DW_TAG_enumeration_type then [13]
        else []),
     prog_word_size = Some 8\<rparr>"

section \<open>What every function keeps of a property of the nested calls\<close>

lemma okres_simps [simp]: "okres E Q (Inl e) = E e" "okres E Q (Inr a) = Q a"
  by (simp_all add: okres_def)

lemma okres_mono: "okres E Q r \<Longrightarrow> (\<And>e. E e \<Longrightarrow> E' e) \<Longrightarrow> (\<And>a. Q a \<Longrightarrow> Q' a) \<Longrightarrow> okres E' Q' r"
  by (cases r) auto

lemma resolves_recD:
  "resolves rec I E T B \<Longrightarrow> rec s t f c = (s', r) \<Longrightarrow> I s \<Longrightarrow> t \<in> T
    \<Longrightarrow> I s' \<and> okres E (\<lambda>a. t \<notin> B) r"
  unfolding resolves_def by blast

lemma resolves_new: "resolves rec I E T B \<Longrightarrow> I s \<Longrightarrow> I (s\<lparr>types_created := n\<rparr>)"
  unfolding resolves_def by blast

lemma resolves_E:
  "resolves rec I E T B \<Longrightarrow> E (Error DRGN_ERROR_OTHER)"
  "resolves rec I E T B \<Longrightarrow> E (Error DRGN_ERROR_OVERFLOW)"
  "resolves rec I E T B \<Longrightarrow> E (Error DRGN_ERROR_INVALID_ARGUMENT)"
  "resolves rec I E T B \<Longrightarrow> E (Error DRGN_ERROR_NO_MEMORY)"
  "resolves rec I E T B \<Longrightarrow> E Uninitialized"
  "resolves rec I E T B \<Longrightarrow> \<not> E (Error DRGN_ERROR_STOP)"
  unfolding resolves_def by blast+

lemma alloc_post:
  "alloc s = (s', ok) \<Longrightarrow> resolves rec I E T B \<Longrightarrow> I s \<Longrightarrow> I s'"
  unfolding resolves_def by blast

lemma alloc_depth:
  "alloc (s\<lparr>depth := n\<rparr>) = (case alloc s of (s', ok) \<Rightarrow> (s'\<lparr>depth := n\<rparr>, ok))"
  "alloc s = (s', ok) \<Longrightarrow> depth s' = depth s"
  by (auto simp: alloc_def split: list.splits)

lemma alloc_create [simp]:
  "alloc drgn_dwarf_info_cache_create = (drgn_dwarf_info_cache_create, True)"
  by (simp add: alloc_def drgn_dwarf_info_cache_create_def)

lemma alloc_fields:
  "alloc s = (s', ok) \<Longrightarrow> depth s' = depth s \<and> map_tbl s' = map_tbl s \<and>
    cant_be_incomplete_array_map s' = cant_be_incomplete_array_map s \<and>
    types_created s' = types_created s"
  by (auto simp: alloc_def split: list.splits)

lemma lazy_type_post:
  "drgn_lazy_type_from_dwarf s d b = (s', r) \<Longrightarrow> resolves rec I E T B \<Longrightarrow> I s
    \<Longrightarrow> I s' \<and> okres E (\<lambda>t. \<exists>x. t = Thunk x b \<and> x \<in> type_ref d) r"
  using resolves_E[of rec I E T B]
  by (auto simp: drgn_lazy_type_from_dwarf_def type_ref_def
      split: option.splits prod.splits bool.splits dest: alloc_post)

lemma new_type_post:
  "new_type s mk = (s', r) \<Longrightarrow> resolves rec I E T B \<Longrightarrow> I s \<Longrightarrow> I s' \<and> (\<exists>t. r = Inr t)"
  by (auto simp: new_type_def dest: resolves_new)

lemmas creates = drgn_bool_type_create_def drgn_float_type_create_def drgn_int_type_create_def
  drgn_complex_type_create_def drgn_compound_type_create_def
  drgn_incomplete_compound_type_create_def drgn_enum_type_create_def
  drgn_incomplete_enum_type_create_def drgn_typedef_type_create_def
  drgn_pointer_type_create_def drgn_array_type_create_def
  drgn_incomplete_array_type_create_def drgn_function_type_create_def

lemma from_dwarf_post:
  assumes res: "drgn_type_from_dwarf rec dicache t = (s', r)"
    and R: "resolves rec I E T B" and I: "I dicache" and t: "t \<in> T"
  shows "I s' \<and> okres E (\<lambda>a. t \<notin> B) r"
  using res I t
  by (auto simp: drgn_type_from_dwarf_def split: prod.splits sum.splits
      dest!: resolves_recD[OF R])

lemma child_post:
  assumes res: "drgn_type_from_dwarf_child rec img dicache d pl can_be_void cbia cell = (s', r)"
    and R: "resolves rec I E T B" and I: "I dicache"
    and sub: "type_ref (dies img d) \<subseteq> T"
  shows "I s' \<and> okres E (\<lambda>a. type_ref (dies img d) \<inter> B = {}) r"
  using res I sub resolves_E[OF R]
  by (auto simp: drgn_type_from_dwarf_child_def type_ref_def drgn_language_from_die_def
      split: option.splits sum.splits if_splits dest!: resolves_recD[OF R])

lemma base_switch_post:
  assumes res: "base_type_encoding_switch rec img dicache d lang name sz encoding = (s', r)"
    and R: "resolves rec I E T B" and I: "I dicache"
    and sub: "(if encoding = DW_ATE_complex_float then type_ref (dies img d) else {}) \<subseteq> T"
  shows "I s' \<and> okres E (\<lambda>a. (if encoding = DW_ATE_complex_float then type_ref (dies img d) else {}) \<inter> B = {}) r"
proof (cases "encoding = DW_ATE_complex_float")
  case False
  then show ?thesis
    using res I resolves_E[OF R]
    by (auto simp: base_type_encoding_switch_def creates split: if_splits
        dest!: new_type_post[OF _ R])
next
  case True
  then show ?thesis
    using res I sub resolves_E[OF R]
    by (auto simp: base_type_encoding_switch_def creates dwarf_type_def type_ref_def
      DW_ATE_boolean_def DW_ATE_complex_float_def DW_ATE_float_def DW_ATE_signed_def
      DW_ATE_signed_char_def DW_ATE_unsigned_def DW_ATE_unsigned_char_def
      split: option.splits if_splits prod.splits sum.splits
      dest!: new_type_post[OF _ R] from_dwarf_post[OF _ R])
qed

lemma base_type_post:
  assumes res: "drgn_base_type_from_dwarf rec img dicache d lang = (s', r)"
    and R: "resolves rec I E T B" and I: "I dicache"
    and sub: "eager img d \<subseteq> T" and tag: "dwarf_tag (dies img d) = DW_TAG_base_type"
  shows "I s' \<and> okres E (\<lambda>a. eager img d \<inter> B = {}) r"
  using res I sub resolves_E[OF R] tag
  by (auto simp: drgn_base_type_from_dwarf_def eager_def die_encoding_def Let_def
      split: option.splits if_splits dest!: base_switch_post[OF _ R])

lemma lazy_evaluate_post:
  assumes res: "drgn_lazy_type_evaluate rec dicache (Thunk t f) = (s', r)"
    and R: "resolves rec I E T B" and I: "I dicache" and t: "t \<in> T"
  shows "I s' \<and> okres E (\<lambda>a. t \<notin> B) r"
  using res I t
  by (auto simp: drgn_lazy_type_evaluate_def drgn_type_from_dwarf_thunk_evaluate_fn_def
      split: prod.splits sum.splits dest!: resolves_recD[OF R])

lemma parse_member_offset_post:
  assumes res: "parse_member_offset rec dicache d (Thunk t f) bfs le = (s', r)"
    and R: "resolves rec I E T B" and I: "I dicache"
    and sub: "(if member_needs_type_size d le then {t} else {}) \<subseteq> T"
  shows "I s' \<and> okres E (\<lambda>a. (if member_needs_type_size d le then {t} else {}) \<inter> B = {}) r"
  using res I sub resolves_E[OF R]
  by (auto simp: parse_member_offset_def member_byte_size_def member_needs_type_size_def
      split: option.splits if_splits prod.splits sum.splits
      dest!: lazy_evaluate_post[OF _ R])

lemma parse_member_post:
  assumes res: "parse_member rec dicache d le cbia builder = (s', r)"
    and R: "resolves rec I E T B" and I: "I dicache"
    and sub: "member_ref d le \<subseteq> T"
  shows "I s' \<and> okres E (\<lambda>b. member_ref d le \<inter> B = {} \<and> b \<noteq> []) r"
  using res I sub resolves_E[OF R]
  by (auto simp: parse_member_def drgn_lazy_type_from_dwarf_def member_ref_def type_ref_def
      split: option.splits if_splits prod.splits sum.splits bool.splits
      dest!: parse_member_offset_post[OF _ R] alloc_post[OF _ R])

lemma members_refs_simps [simp]:
  "members_refs img le [] = {}"
  "members_refs img le (m # ms) = member_ref (dies img m) le \<union> members_refs img le ms"
  "members_refs img le (ms @ ms') = members_refs img le ms \<union> members_refs img le ms'"
  by (auto simp: members_refs_def)

lemma pending_members_simps:
  "pending_members img None [] = []"
  "pending_members img (Some m) [] = [m]"
  "dwarf_tag (dies img child) \<noteq> DW_TAG_member
    \<Longrightarrow> pending_members img member (child # rest) = pending_members img member rest"
  "dwarf_tag (dies img child) = DW_TAG_member
    \<Longrightarrow> pending_members img None (child # rest) = pending_members img (Some child) rest"
  "dwarf_tag (dies img child) = DW_TAG_member
    \<Longrightarrow> pending_members img (Some m) (child # rest) = m # pending_members img (Some child) rest"
  "pending_members img (Some m) rest \<noteq> []"
  by (simp_all add: pending_members_def)

lemma compound_loop_post:
  assumes R: "resolves rec I E T B"
  shows "compound_children_loop rec img dicache le cs member builder = (s', r) \<Longrightarrow> I dicache
    \<Longrightarrow> members_refs img le (pending_members img member cs) \<subseteq> T
    \<Longrightarrow> I s' \<and> okres E (\<lambda>(member', builder').
          member' = (if pending_members img member cs = [] then None
                     else Some (last (pending_members img member cs))) \<and>
          members_refs img le (butlast (pending_members img member cs)) \<inter> B = {}) r"
proof (induction cs arbitrary: dicache member builder)
  case Nil
  then show ?case by (cases member) (auto simp: pending_members_simps)
next
  case (Cons child rest)
  show ?case
  proof (cases "dwarf_tag (dies img child) = DW_TAG_member")
    case False
    then have eq: "pending_members img member (child # rest) = pending_members img member rest"
      by (simp add: pending_members_simps)
    from False Cons.prems(1)
    have loop: "compound_children_loop rec img dicache le rest member builder = (s', r)"
      by simp
    from Cons.IH[OF loop Cons.prems(2)] Cons.prems(3) show ?thesis
      unfolding eq by blast
  next
    case True
    note tag = this
    show ?thesis
    proof (cases member)
      case None
      with tag have eq: "pending_members img member (child # rest)
          = pending_members img (Some child) rest"
        by (simp add: pending_members_simps)
      from None tag Cons.prems(1)
      have loop: "compound_children_loop rec img dicache le rest (Some child) builder = (s', r)"
        by simp
      from Cons.IH[OF loop Cons.prems(2)] Cons.prems(3) show ?thesis
        unfolding eq by blast
    next
      case (Some m)
      obtain s1 r1 where pm: "parse_member rec dicache (dies img m) le False builder = (s1, r1)"
        by (cases "parse_member rec dicache (dies img m) le False builder") auto
      from Cons.prems Some tag have sub: "member_ref (dies img m) le \<subseteq> T"
        by (simp add: pending_members_simps)
      from parse_member_post[OF pm R Cons.prems(2) sub]
      have I1: "I s1" and ok1: "okres E (\<lambda>b. member_ref (dies img m) le \<inter> B = {} \<and> b \<noteq> []) r1"
        by auto
      show ?thesis
      proof (cases r1)
        case (Inl e)
        then show ?thesis using Cons.prems pm Some tag I1 ok1 by auto
      next
        case (Inr b1)
        with Cons.prems pm Some tag
        have loop: "compound_children_loop rec img s1 le rest (Some child) b1 = (s', r)"
          by simp
        from Cons.prems Some tag
        have sub': "members_refs img le (pending_members img (Some child) rest) \<subseteq> T"
          by (simp add: pending_members_simps)
        from Cons.IH[OF loop I1 sub'] Inr ok1 Some tag show ?thesis
          by (cases r) (auto simp: pending_members_simps Int_Un_distrib2)
      qed
    qed
  qed
qed

lemma le_result [simp]: "dwarf_die_is_little_endian d False = Inr (die_elf_lsb d)"
  by (simp add: dwarf_die_is_little_endian_def endianity_switch_def)

lemma compound_definition_post:
  assumes res: "compound_type_definition rec img dicache d lang kind tag = (s', r)"
    and R: "resolves rec I E T B" and I: "I dicache"
    and sub: "members_refs img (die_elf_lsb (dies img d)) (member_children img (dies img d)) \<subseteq> T"
  shows "I s' \<and> okres E (\<lambda>a. members_refs img (die_elf_lsb (dies img d))
            (member_children img (dies img d)) \<inter> B = {}) r"
proof (cases "dwarf_bytesize (dies img d) = - 1")
  case True
  then show ?thesis using res I resolves_E[OF R] by (auto simp: compound_type_definition_def)
next
  case False
  let ?le = "die_elf_lsb (dies img d)"
  let ?ms = "pending_members img None (die_children (dies img d))"
  have ms: "member_children img (dies img d) = ?ms"
    by (simp add: member_children_def pending_members_def)
  obtain s1 r1 where loop: "compound_children_loop rec img dicache ?le
      (die_children (dies img d)) None [] = (s1, r1)"
    by (cases "compound_children_loop rec img dicache ?le (die_children (dies img d)) None []")
      auto
  from compound_loop_post[OF R loop I] sub
  have I1: "I s1" and ok1: "okres E (\<lambda>(member', builder').
          member' = (if ?ms = [] then None else Some (last ?ms)) \<and>
          members_refs img ?le (butlast ?ms) \<inter> B = {}) r1"
    unfolding ms by auto
  show ?thesis
  proof (cases r1)
    case (Inl e)
    then show ?thesis using res False loop I1 ok1
      by (auto simp: compound_type_definition_def Let_def)
  next
    case (Inr mb)
    obtain member builder where mb: "mb = (member, builder)" by (cases mb) auto
    show ?thesis
    proof (cases "die_children_ok (dies img d)")
      case False
      then show ?thesis using res \<open>dwarf_bytesize (dies img d) \<noteq> - 1\<close> loop I1 Inr mb
          resolves_E[OF R]
        by (auto simp: compound_type_definition_def Let_def)
    next
      case True
      show ?thesis
      proof (cases "?ms = []")
        case True
        then show ?thesis
          using res \<open>dwarf_bytesize (dies img d) \<noteq> - 1\<close> loop I1 Inr mb ok1
            \<open>die_children_ok (dies img d)\<close>
          by (auto simp: compound_type_definition_def Let_def ms creates
              dest!: new_type_post[OF _ R])
      next
        case False
        then have member: "member = Some (last ?ms)" using ok1 Inr mb by simp
        have split: "?ms = butlast ?ms @ [last ?ms]" using False by simp
        obtain s2 r2 where pm: "parse_member rec s1 (dies img (last ?ms)) ?le
            (kind \<noteq> DRGN_TYPE_UNION \<and> builder \<noteq> []) builder = (s2, r2)"
          by (cases "parse_member rec s1 (dies img (last ?ms)) ?le
            (kind \<noteq> DRGN_TYPE_UNION \<and> builder \<noteq> []) builder") auto
        have "members_refs img ?le ?ms = members_refs img ?le (butlast ?ms)
                \<union> member_ref (dies img (last ?ms)) ?le"
          by (subst split) simp
        with sub ok1 Inr mb have sub2: "member_ref (dies img (last ?ms)) ?le \<subseteq> T"
          and rest: "members_refs img ?le ?ms \<inter> B = {}
            \<longleftrightarrow> member_ref (dies img (last ?ms)) ?le \<inter> B = {}"
          unfolding ms by auto
        from parse_member_post[OF pm R I1 sub2]
        have I2: "I s2" and ok2: "okres E (\<lambda>b. member_ref (dies img (last ?ms)) ?le \<inter> B = {}
            \<and> b \<noteq> []) r2" by auto
        show ?thesis
          using res \<open>dwarf_bytesize (dies img d) \<noteq> - 1\<close> loop Inr mb member pm I2 ok2 rest
            \<open>die_children_ok (dies img d)\<close>
          by (cases r2) (auto simp: compound_type_definition_def Let_def ms creates
              dest!: new_type_post[OF _ R])
      qed
    qed
  qed
qed

lemma find_complete_post:
  assumes res: "drgn_dwarf_info_cache_find_complete rec img dicache tag name = (s', r)"
    and R: "resolves rec I E T B" and I: "I dicache"
    and sub: "index_ref img name tag \<subseteq> T"
  shows "I s' \<and> okres (\<lambda>e. if e = Error DRGN_ERROR_STOP then index_ref img name tag = {} else E e)
            (\<lambda>a. index_ref img name tag \<inter> B = {}) r"
  using res I sub resolves_E[OF R]
  by (auto simp: drgn_dwarf_info_cache_find_complete_def drgn_dwarf_index_iterator_init_def
      drgn_dwarf_index_iterator_next_def index_ref_def Let_def
      split: list.splits sum.splits prod.splits if_splits
      dest!: from_dwarf_post[OF _ R])

lemma compound_dw_tag_cases:
  "compound_dw_tag kind = Some t \<Longrightarrow>
    (kind = DRGN_TYPE_STRUCT \<and> t = DW_TAG_structure_type) \<or>
    (kind = DRGN_TYPE_UNION \<and> t = DW_TAG_union_type) \<or>
    (kind = DRGN_TYPE_CLASS \<and> t = DW_TAG_class_type)"
  by (cases kind) (auto simp: compound_dw_tag_def)

lemma compound_post:
  assumes res: "drgn_compound_type_from_dwarf rec img dicache d lang kind = (s', r)"
    and R: "resolves rec I E T B" and I: "I dicache"
    and kind: "compound_dw_tag kind = Some tag"
    and sub: "compound_refs img (dies img d) tag \<subseteq> T"
  shows "I s' \<and> okres E (\<lambda>a. compound_refs img (dies img d) tag \<inter> B = {}) r"
proof (cases "die_tag_name (dies img d)")
  case (Inl e)
  then show ?thesis using res I kind resolves_E[OF R]
    by (auto simp: drgn_compound_type_from_dwarf_def die_tag_name_def split: option.splits)
next
  case (Inr name)
  note name = this
  show ?thesis
  proof (cases "dwarf_flag (dies img d) DW_AT_declaration")
    case None
    then show ?thesis using res I kind name resolves_E[OF R]
      by (auto simp: drgn_compound_type_from_dwarf_def)
  next
    case (Some decl)
    show ?thesis
    proof (cases decl)
      case False
      with Some name have refs: "compound_refs img (dies img d) tag =
          members_refs img (die_elf_lsb (dies img d)) (member_children img (dies img d))"
        by (simp add: compound_refs_def find_complete_refs_def split: option.splits)
      from res Some False name kind
      have "compound_type_definition rec img dicache d lang kind name = (s', r)"
        by (simp add: drgn_compound_type_from_dwarf_def)
      from compound_definition_post[OF this R I] sub show ?thesis
        unfolding refs by blast
    next
      case True
      show ?thesis
      proof (cases name)
        case None
        then show ?thesis using res I kind name Some True
          by (auto simp: drgn_compound_type_from_dwarf_def creates compound_refs_def
              find_complete_refs_def dest!: new_type_post[OF _ R])
      next
        case (Some n)
        with \<open>dwarf_flag (dies img d) DW_AT_declaration = Some decl\<close> True name
        have refs: "compound_refs img (dies img d) tag = index_ref img n tag"
          by (simp add: compound_refs_def find_complete_refs_def index_ref_def)
        obtain s1 r1 where fc:
          "drgn_dwarf_info_cache_find_complete rec img dicache tag n = (s1, r1)"
          by (cases "drgn_dwarf_info_cache_find_complete rec img dicache tag n") auto
        from find_complete_post[OF fc R I] sub
        have I1: "I s1" and ok1: "okres (\<lambda>e. if e = Error DRGN_ERROR_STOP
              then index_ref img n tag = {} else E e)
            (\<lambda>a. index_ref img n tag \<inter> B = {}) r1"
          unfolding refs by auto
        show ?thesis
          using res kind name Some True fc I1 ok1
            \<open>dwarf_flag (dies img d) DW_AT_declaration = Some decl\<close>
          unfolding refs
          by (cases r1) (auto simp: drgn_compound_type_from_dwarf_def creates
              split: if_splits dest!: new_type_post[OF _ R])
      qed
    qed
  qed
qed

lemma enum_loop_post:
  "enum_children_loop img cs builder is_signed = Inl e \<Longrightarrow> e = Error DRGN_ERROR_OTHER"
  by (induction cs arbitrary: builder is_signed)
     (auto simp: parse_enumerator_def split: if_splits option.splits sum.splits)

lemma enum_definition_post:
  assumes res: "enum_type_definition rec img dicache d lang tag = (s', r)"
    and R: "resolves rec I E T B" and I: "I dicache"
    and sub: "type_ref (dies img d) \<subseteq> T"
  shows "I s' \<and> okres E (\<lambda>a. type_ref (dies img d) \<inter> B = {}) r"
proof (cases "enum_children_loop img (die_children (dies img d)) [] False")
  case (Inl e)
  with enum_loop_post[OF Inl] show ?thesis using res I resolves_E[OF R]
    by (auto simp: enum_type_definition_def)
next
  case (Inr bs)
  then show ?thesis using res I sub resolves_E[OF R]
    by (cases bs)
       (auto simp: enum_type_definition_def dwarf_type_def type_ref_def creates
          enum_compatible_type_fallback_def Let_def
          split: if_splits option.splits sum.splits prod.splits
          dest!: new_type_post[OF _ R] from_dwarf_post[OF _ R])
qed

lemma enum_post:
  assumes res: "drgn_enum_type_from_dwarf rec img dicache d lang = (s', r)"
    and R: "resolves rec I E T B" and I: "I dicache"
    and tag: "dwarf_tag (dies img d) = DW_TAG_enumeration_type"
    and sub: "eager img d \<subseteq> T"
  shows "I s' \<and> okres E (\<lambda>a. eager img d \<inter> B = {}) r"
proof (cases "die_tag_name (dies img d)")
  case (Inl e)
  then show ?thesis using res I resolves_E[OF R]
    by (auto simp: drgn_enum_type_from_dwarf_def die_tag_name_def split: option.splits)
next
  case (Inr name)
  note name = this
  show ?thesis
  proof (cases "dwarf_flag (dies img d) DW_AT_declaration")
    case None
    then show ?thesis using res I name resolves_E[OF R]
      by (auto simp: drgn_enum_type_from_dwarf_def)
  next
    case (Some decl)
    note decl = this
    show ?thesis
    proof (cases decl)
      case False
      with decl name tag have refs: "eager img d = type_ref (dies img d)"
        by (simp add: eager_def find_complete_refs_def Let_def split: option.splits)
      from res decl False name
      have "enum_type_definition rec img dicache d lang name = (s', r)"
        by (simp add: drgn_enum_type_from_dwarf_def)
      from enum_definition_post[OF this R I] sub show ?thesis
        unfolding refs by blast
    next
      case True
      show ?thesis
      proof (cases name)
        case None
        then show ?thesis using res I name decl True tag
          by (auto simp: drgn_enum_type_from_dwarf_def creates eager_def Let_def
              find_complete_refs_def dest!: new_type_post[OF _ R])
      next
        case (Some n)
        with decl True name tag
        have refs: "eager img d = index_ref img n DW_TAG_enumeration_type"
          by (simp add: eager_def find_complete_refs_def index_ref_def Let_def)
        obtain s1 r1 where fc:
          "drgn_dwarf_info_cache_find_complete rec img dicache DW_TAG_enumeration_type n
            = (s1, r1)"
          by (cases "drgn_dwarf_info_cache_find_complete rec img dicache
                DW_TAG_enumeration_type n") auto
        from find_complete_post[OF fc R I] sub
        have I1: "I s1" and ok1: "okres (\<lambda>e. if e = Error DRGN_ERROR_STOP
              then index_ref img n DW_TAG_enumeration_type = {} else E e)
            (\<lambda>a. index_ref img n DW_TAG_enumeration_type \<inter> B = {}) r1"
          unfolding refs by auto
        show ?thesis
          using res name Some True fc I1 ok1 decl
          unfolding refs
          by (cases r1) (auto simp: drgn_enum_type_from_dwarf_def creates
              split: if_splits dest!: new_type_post[OF _ R])
      qed
    qed
  qed
qed

lemma typedef_post:
  assumes res: "drgn_typedef_type_from_dwarf rec img dicache d lang cbia cell = (s', r)"
    and R: "resolves rec I E T B" and I: "I dicache"
    and sub: "type_ref (dies img d) \<subseteq> T"
  shows "I s' \<and> okres E (\<lambda>a. type_ref (dies img d) \<inter> B = {}) r"
  using res I sub resolves_E[OF R]
  by (auto simp: drgn_typedef_type_from_dwarf_def creates
      split: option.splits sum.splits prod.splits
      dest!: child_post[OF _ R] new_type_post[OF _ R])

lemma pointer_post:
  assumes res: "drgn_pointer_type_from_dwarf rec img dicache d lang = (s', r)"
    and R: "resolves rec I E T B" and I: "I dicache"
    and sub: "type_ref (dies img d) \<subseteq> T"
  shows "I s' \<and> okres E (\<lambda>a. type_ref (dies img d) \<inter> B = {}) r"
  using res I sub resolves_E[OF R]
  by (auto simp: drgn_pointer_type_from_dwarf_def creates drgn_program_word_size_def
      split: option.splits sum.splits prod.splits
      dest!: child_post[OF _ R] new_type_post[OF _ R])

lemma subrange_length_post:
  "subrange_length d dimension = Inl e
    \<Longrightarrow> e = Error DRGN_ERROR_OTHER \<or> e = Error DRGN_ERROR_OVERFLOW"
  by (auto simp: subrange_length_def split: if_splits option.splits)

lemma array_children_loop_post:
  assumes R: "resolves rec I E T B"
  shows "array_children_loop img dicache cs dims = (s', r) \<Longrightarrow> I dicache
    \<Longrightarrow> I s' \<and> okres E (\<lambda>a. True) r"
proof (induction cs arbitrary: dicache dims)
  case Nil
  then show ?case by auto
next
  case (Cons child rest)
  show ?case
  proof (cases "dwarf_tag (dies img child) = DW_TAG_subrange_type")
    case False
    with Cons.prems Cons.IH[of dicache dims] show ?thesis by simp
  next
    case True
    obtain s1 ok where a: "alloc dicache = (s1, ok)" by (cases "alloc dicache")
    from alloc_post[OF a R Cons.prems(2)] have I1: "I s1" .
    show ?thesis
    proof (cases ok)
      case False
      with True a Cons.prems(1) I1 resolves_E[OF R] show ?thesis by auto
    next
      case ok: True
      show ?thesis
      proof (cases "subrange_length (dies img child) array_dimension_vector_append_entry")
        case (Inl e)
        with subrange_length_post[OF Inl] True a ok Cons.prems(1) I1 resolves_E[OF R]
        show ?thesis by auto
      next
        case (Inr dimension)
        with True a ok Cons.prems(1)
        have "array_children_loop img s1 rest (dims @ [dimension]) = (s', r)" by simp
        from Cons.IH[OF this I1] show ?thesis .
      qed
    qed
  qed
qed

lemma array_type_loop_post:
  assumes R: "resolves rec I E T B"
  shows "array_type_loop dicache lang cbia dims elt = (s', r) \<Longrightarrow> I dicache \<Longrightarrow> dims \<noteq> []
    \<Longrightarrow> I s' \<and> (\<exists>t. r = Inr t)"
proof (induction dims arbitrary: dicache elt)
  case Nil
  then show ?case by simp
next
  case (Cons dimension dimensions)
  then show ?case
    by (cases "dimensions = []")
       (auto simp: creates split: if_splits prod.splits sum.splits
          dest!: new_type_post[OF _ R])
qed

lemma array_post:
  assumes res: "drgn_array_type_from_dwarf rec img dicache d lang cbia = (s', r)"
    and R: "resolves rec I E T B" and I: "I dicache"
    and sub: "type_ref (dies img d) \<subseteq> T"
  shows "I s' \<and> okres E (\<lambda>a. type_ref (dies img d) \<inter> B = {}) r"
proof -
  obtain s1 r1 where loop: "array_children_loop img dicache (die_children (dies img d)) [] = (s1, r1)"
    by (cases "array_children_loop img dicache (die_children (dies img d)) []")
  from array_children_loop_post[OF R loop I] have I1: "I s1" and ok1: "okres E (\<lambda>a. True) r1"
    by auto
  show ?thesis
  proof (cases r1)
    case (Inl e)
    with loop res I1 ok1 show ?thesis by (auto simp: drgn_array_type_from_dwarf_def)
  next
    case (Inr dims)
    obtain s2 ok where a: "alloc s1 = (s2, ok)" by (cases "alloc s1")
    from alloc_post[OF a R I1] have I2: "I s2" .
    from Inr loop res I1 I2 a sub resolves_E[OF R] show ?thesis
      by (auto simp: drgn_array_type_from_dwarf_def Let_def creates
          split: if_splits sum.splits prod.splits bool.splits
          dest!: child_post[OF _ R] array_type_loop_post[OF R] new_type_post[OF _ R])
  qed
qed

lemma parse_formal_parameter_post:
  "parse_formal_parameter s d builder = (s', r) \<Longrightarrow> resolves rec I E T B \<Longrightarrow> I s
    \<Longrightarrow> I s' \<and> okres E (\<lambda>a. True) r"
  using resolves_E[of rec I E T B]
  by (auto simp: parse_formal_parameter_def split: option.splits sum.splits prod.splits
      dest!: lazy_type_post[where rec = rec and I = I and E = E and T = T and B = B])

lemma function_loop_post:
  assumes R: "resolves rec I E T B"
  shows "function_children_loop img dicache cs builder v = (s', r) \<Longrightarrow> I dicache
    \<Longrightarrow> I s' \<and> okres E (\<lambda>a. True) r"
proof (induction cs arbitrary: dicache builder v)
  case Nil
  then show ?case by auto
next
  case (Cons child rest)
  show ?case
  proof (cases "dwarf_tag (dies img child) = DW_TAG_formal_parameter")
    case True
    show ?thesis
    proof (cases v)
      case True
      with \<open>dwarf_tag (dies img child) = DW_TAG_formal_parameter\<close> Cons.prems resolves_E[OF R]
      show ?thesis by auto
    next
      case False
      obtain s1 r1 where p: "parse_formal_parameter dicache (dies img child) builder = (s1, r1)"
        by (cases "parse_formal_parameter dicache (dies img child) builder")
      from parse_formal_parameter_post[OF p R Cons.prems(2)]
      have I1: "I s1" and ok1: "okres E (\<lambda>a. True) r1" by auto
      show ?thesis
      proof (cases r1)
        case (Inl e)
        with True False p Cons.prems(1) I1 ok1 show ?thesis by auto
      next
        case (Inr b1)
        with True False p Cons.prems(1)
        have "function_children_loop img s1 rest b1 v = (s', r)" by simp
        from Cons.IH[OF this I1] show ?thesis .
      qed
    qed
  next
    case False
    note nf = this
    show ?thesis
    proof (cases "dwarf_tag (dies img child) = DW_TAG_unspecified_parameters")
      case True
      show ?thesis
      proof (cases v)
        case True
        with \<open>dwarf_tag (dies img child) = DW_TAG_unspecified_parameters\<close> Cons.prems
          resolves_E[OF R]
        show ?thesis by auto
      next
        case False
        with True Cons.prems(1)
        have "function_children_loop img dicache rest builder True = (s', r)" by simp
        from Cons.IH[OF this Cons.prems(2)] show ?thesis .
      qed
    next
      case False
      with nf Cons.prems(1)
      have "function_children_loop img dicache rest builder v = (s', r)"
        by (cases "dwarf_tag (dies img child)") simp_all
      from Cons.IH[OF this Cons.prems(2)] show ?thesis .
    qed
  qed
qed

lemma function_post:
  assumes res: "drgn_function_type_from_dwarf rec img dicache d lang = (s', r)"
    and R: "resolves rec I E T B" and I: "I dicache"
    and sub: "type_ref (dies img d) \<subseteq> T"
  shows "I s' \<and> okres E (\<lambda>a. type_ref (dies img d) \<inter> B = {}) r"
proof -
  obtain s1 r1 where loop:
    "function_children_loop img dicache (die_children (dies img d)) [] False = (s1, r1)"
    by (cases "function_children_loop img dicache (die_children (dies img d)) [] False")
  from function_loop_post[OF R loop I] have I1: "I s1" and ok1: "okres E (\<lambda>a. True) r1"
    by auto
  show ?thesis
  proof (cases r1)
    case (Inl e)
    with loop res I1 ok1 show ?thesis by (auto simp: drgn_function_type_from_dwarf_def)
  next
    case (Inr bv)
    with loop res I1 sub resolves_E[OF R] show ?thesis
      by (cases bv)
         (auto simp: drgn_function_type_from_dwarf_def creates
            split: if_splits sum.splits prod.splits
            dest!: child_post[OF _ R] new_type_post[OF _ R])
  qed
qed

lemma qualifier_case_post:
  assumes res: "qualifier_case rec img dicache d lang q = (s', r)"
    and R: "resolves rec I E T B" and I: "I dicache"
    and sub: "type_ref (dies img d) \<subseteq> T"
  shows "I s' \<and> okres E (\<lambda>a. type_ref (dies img d) \<inter> B = {}) r"
  using res I sub
  by (auto simp: qualifier_case_def split: sum.splits prod.splits dest!: child_post[OF _ R])

lemma unqualified_case_post:
  assumes "unqualified_case m = (s', r)"
    and "\<And>r0. m = (s', r0) \<Longrightarrow> I s' \<and> okres E (\<lambda>a. P) r0"
  shows "I s' \<and> okres E (\<lambda>a. P) r"
  using assms by (cases m) (auto simp: unqualified_case_def split: sum.splits)

lemma switch_post:
  assumes res: "type_from_dwarf_switch rec img dicache d lang cbia = (s', r)"
    and R: "resolves rec I E T B" and I: "I dicache"
    and sub: "eager img d \<subseteq> T"
  shows "I s' \<and> okres E (\<lambda>a. eager img d \<inter> B = {}) r"
proof (cases "dwarf_tag (dies img d)")
  case DW_TAG_const_type
  with res sub qualifier_case_post[OF _ R I] show ?thesis
    by (simp add: type_from_dwarf_switch_def eager_def)
next
  case DW_TAG_restrict_type
  with res sub qualifier_case_post[OF _ R I] show ?thesis
    by (simp add: type_from_dwarf_switch_def eager_def)
next
  case DW_TAG_volatile_type
  with res sub qualifier_case_post[OF _ R I] show ?thesis
    by (simp add: type_from_dwarf_switch_def eager_def)
next
  case DW_TAG_atomic_type
  with res sub qualifier_case_post[OF _ R I] show ?thesis
    by (simp add: type_from_dwarf_switch_def eager_def)
next
  case DW_TAG_base_type
  with res have u: "unqualified_case (drgn_base_type_from_dwarf rec img dicache d lang) = (s', r)"
    by (simp add: type_from_dwarf_switch_def)
  show ?thesis
    by (rule unqualified_case_post[OF u]) (rule base_type_post[OF _ R I sub DW_TAG_base_type])
next
  case DW_TAG_structure_type
  then have e: "eager img d = compound_refs img (dies img d) DW_TAG_structure_type"
    by (simp add: eager_def)
  from res DW_TAG_structure_type have u: "unqualified_case (drgn_compound_type_from_dwarf rec img dicache d lang DRGN_TYPE_STRUCT) = (s', r)"
    by (simp add: type_from_dwarf_switch_def)
  show ?thesis unfolding e
    by (rule unqualified_case_post[OF u]) (rule compound_post[OF _ R I _ sub[unfolded e]], assumption, simp add: compound_dw_tag_def)
next
  case DW_TAG_union_type
  then have e: "eager img d = compound_refs img (dies img d) DW_TAG_union_type"
    by (simp add: eager_def)
  from res DW_TAG_union_type have u: "unqualified_case (drgn_compound_type_from_dwarf rec img dicache d lang DRGN_TYPE_UNION) = (s', r)"
    by (simp add: type_from_dwarf_switch_def)
  show ?thesis unfolding e
    by (rule unqualified_case_post[OF u]) (rule compound_post[OF _ R I _ sub[unfolded e]], assumption, simp add: compound_dw_tag_def)
next
  case DW_TAG_class_type
  then have e: "eager img d = compound_refs img (dies img d) DW_TAG_class_type"
    by (simp add: eager_def)
  from res DW_TAG_class_type have u: "unqualified_case (drgn_compound_type_from_dwarf rec img dicache d lang DRGN_TYPE_CLASS) = (s', r)"
    by (simp add: type_from_dwarf_switch_def)
  show ?thesis unfolding e
    by (rule unqualified_case_post[OF u]) (rule compound_post[OF _ R I _ sub[unfolded e]], assumption, simp add: compound_dw_tag_def)
next
  case DW_TAG_enumeration_type
  with res have u: "unqualified_case (drgn_enum_type_from_dwarf rec img dicache d lang) = (s', r)"
    by (simp add: type_from_dwarf_switch_def)
  show ?thesis
    by (rule unqualified_case_post[OF u]) (rule enum_post[OF _ R I DW_TAG_enumeration_type sub])
next
  case DW_TAG_typedef
  with res sub typedef_post[OF _ R I, of img d lang cbia "Some False"] show ?thesis
    by (auto simp: type_from_dwarf_switch_def eager_def split: prod.splits sum.splits)
next
  case DW_TAG_pointer_type
  then have e: "eager img d = type_ref (dies img d)"
    by (simp add: eager_def)
  from res DW_TAG_pointer_type have u: "unqualified_case (drgn_pointer_type_from_dwarf rec img dicache d lang) = (s', r)"
    by (simp add: type_from_dwarf_switch_def)
  show ?thesis unfolding e
    by (rule unqualified_case_post[OF u]) (rule pointer_post[OF _ R I sub[unfolded e]])
next
  case DW_TAG_array_type
  with res sub array_post[OF _ R I, of img d lang cbia] show ?thesis
    by (auto simp: type_from_dwarf_switch_def eager_def split: prod.splits sum.splits)
next
  case DW_TAG_subroutine_type
  then have e: "eager img d = type_ref (dies img d)"
    by (simp add: eager_def)
  from res DW_TAG_subroutine_type have u: "unqualified_case (drgn_function_type_from_dwarf rec img dicache d lang) = (s', r)"
    by (simp add: type_from_dwarf_switch_def)
  show ?thesis unfolding e
    by (rule unqualified_case_post[OF u]) (rule function_post[OF _ R I sub[unfolded e]])
next
  case DW_TAG_subprogram
  then have e: "eager img d = type_ref (dies img d)"
    by (simp add: eager_def)
  from res DW_TAG_subprogram have u: "unqualified_case (drgn_function_type_from_dwarf rec img dicache d lang) = (s', r)"
    by (simp add: type_from_dwarf_switch_def)
  show ?thesis unfolding e
    by (rule unqualified_case_post[OF u]) (rule function_post[OF _ R I sub[unfolded e]])
qed (use res I resolves_E[OF R] in \<open>auto simp: type_from_dwarf_switch_def eager_def\<close>)

section \<open>The dimension decoder\<close>

lemma dwarf_attr_integrate_code:
  "dwarf_attr_integrate d name = Some attr \<Longrightarrow> code attr = name"
  by (auto simp: dwarf_attr_integrate_def dest: find_Some_iff[THEN iffD1])

text \<open>
  Claim C7. For a subrange DIE with \<^verbatim>\<open>DW_AT_upper_bound\<close> of value \<open>n\<close>: if the form
  is sdata and \<open>n\<close> is -1 the dimension is complete with length 0; otherwise the
  decoding fails with an overflow error exactly when \<open>n\<close> is \<^verbatim>\<open>UINT64_MAX\<close>, and else
  the dimension is complete with length \<open>n + 1\<close> (which does not wrap).
\<close>

theorem subrange_length_upper_bound:
  assumes "dwarf_attr_integrate d DW_AT_upper_bound = Some attr"
    and "dwarf_formudata attr = Some n"
  shows "subrange_length d dimension =
    (if form attr = DW_FORM_sdata \<and> n = - 1
     then Inr (dimension\<lparr>is_complete := True, length_dim := 0\<rparr>)
     else if UINT64_MAX \<le> n then Inl (Error DRGN_ERROR_OVERFLOW)
     else Inr (dimension\<lparr>is_complete := True, length_dim := n + 1\<rparr>))
    \<and> (n < UINT64_MAX \<longrightarrow> unat (n + 1) = unat n + 1)
    \<and> (UINT64_MAX \<le> n \<longleftrightarrow> unat n = 2 ^ 64 - 1)"
proof -
  have c: "code attr = DW_AT_upper_bound"
    using assms(1) by (rule dwarf_attr_integrate_code)
  have m: "unat (UINT64_MAX) = 2 ^ 64 - 1"
    by (simp add: UINT64_MAX_def)
  have a: "n < UINT64_MAX \<longrightarrow> unat (n + 1) = unat n + 1"
  proof
    assume "n < UINT64_MAX"
    then have "unat n < 2 ^ 64 - 1"
      using m by (simp add: word_less_nat_alt)
    then have "unat n + unat (1 :: 64 word) < 2 ^ LENGTH(64)" by simp
    then have "unat (n + 1) = unat n + unat (1 :: 64 word)"
      by (simp only: unat_add_lem[THEN iffD1])
    then show "unat (n + 1) = unat n + 1" by simp
  qed
  have b: "UINT64_MAX \<le> n \<longleftrightarrow> unat n = 2 ^ 64 - 1"
  proof -
    have "unat n < 2 ^ 64" using unsigned_less[of n, where 'a = nat] by simp
    then show ?thesis using m by (auto simp: word_le_nat_alt)
  qed
  show ?thesis using assms c a b by (simp add: subrange_length_def)
qed

theorem subrange_length_upper_bound_witness:
  "subrange_length (upper_bound_die DW_FORM_udata (UINT64_MAX - 1)) array_dimension_vector_append_entry
     = Inr \<lparr>length_dim = UINT64_MAX, is_complete = True\<rparr>
   \<and> subrange_length (upper_bound_die DW_FORM_udata UINT64_MAX) array_dimension_vector_append_entry
     = Inl (Error DRGN_ERROR_OVERFLOW)
   \<and> subrange_length (upper_bound_die DW_FORM_sdata (- 1)) array_dimension_vector_append_entry
     = Inr \<lparr>length_dim = 0, is_complete = True\<rparr>"
  using subrange_length_upper_bound[of "upper_bound_die DW_FORM_udata (UINT64_MAX - 1)"
      "\<lparr>code = DW_AT_upper_bound, data = Constant DW_FORM_udata (UINT64_MAX - 1)\<rparr>"
      "UINT64_MAX - 1" array_dimension_vector_append_entry]
    subrange_length_upper_bound[of "upper_bound_die DW_FORM_udata UINT64_MAX"
      "\<lparr>code = DW_AT_upper_bound, data = Constant DW_FORM_udata UINT64_MAX\<rparr>"
      "UINT64_MAX" array_dimension_vector_append_entry]
    subrange_length_upper_bound[of "upper_bound_die DW_FORM_sdata (- 1)"
      "\<lparr>code = DW_AT_upper_bound, data = Constant DW_FORM_sdata (- 1)\<rparr>"
      "- 1" array_dimension_vector_append_entry]
  by (simp add: upper_bound_die_def dwarf_attr_integrate_def dwarf_formudata_def form_def
      UINT64_MAX_def array_dimension_vector_append_entry_def)

section \<open>The member offset decoder\<close>

lemma uint_member_offset:
  "uint (8 * byte_offset + 8 * byte_size - bit_offset - bit_field_size :: 64 word) =
    (8 * uint byte_offset + 8 * uint byte_size - uint bit_offset - uint bit_field_size) mod 2 ^ 64"
proof -
  have "8 * byte_offset + 8 * byte_size - bit_offset - bit_field_size =
    (word_of_int (8 * uint byte_offset + 8 * uint byte_size - uint bit_offset
       - uint bit_field_size) :: 64 word)"
    by simp
  then show ?thesis by (simp only: uint_word_of_int) simp
qed

text \<open>
  Claim C8. For a member DIE without \<^verbatim>\<open>DW_AT_data_bit_offset\<close> and with
  \<^verbatim>\<open>DW_AT_bit_offset\<close>, \<^verbatim>\<open>parse_member_offset\<close> returns, on a big-endian target,
  8 times the data member location (0 if absent) plus the bit offset, and on a
  little-endian target 8 times the location plus 8 times the byte size minus the bit
  offset minus the bit field size, where the byte size is \<^verbatim>\<open>DW_AT_byte_size\<close> if
  present and else the size of the member's type (an error if it has none). The
  arithmetic is that of \<^verbatim>\<open>uint64_t\<close>: the integer value modulo \<open>2^64\<close>.
\<close>

theorem parse_member_offset_bit_offset:
  assumes "dwarf_attr_integrate d DW_AT_data_bit_offset = None"
    and "dwarf_attr_integrate d DW_AT_bit_offset = Some attr"
    and "dwarf_formudata attr = Some bit_offset"
    and "(case dwarf_attr_integrate d DW_AT_data_member_location of
            None \<Rightarrow> Some 0 | Some a \<Rightarrow> dwarf_formudata a) = Some byte_offset"
  shows "parse_member_offset rec dicache d member_type bit_field_size False =
      (dicache, Inr (8 * byte_offset + bit_offset, member_type))
    \<and> parse_member_offset rec dicache d member_type bit_field_size True =
      (case member_byte_size rec dicache d member_type of
         (dicache', Inl err) \<Rightarrow> (dicache', Inl err)
       | (dicache', Inr (byte_size, member_type')) \<Rightarrow>
           (dicache', Inr (8 * byte_offset + 8 * byte_size - bit_offset - bit_field_size,
                           member_type')))
    \<and> member_byte_size rec dicache d member_type =
      (case dwarf_attr_integrate d DW_AT_byte_size of
         Some a \<Rightarrow>
           (case dwarf_formudata a of
              Some byte_size \<Rightarrow> (dicache, Inr (byte_size, member_type))
            | None \<Rightarrow> (dicache, Inl (Error DRGN_ERROR_OTHER)))
       | None \<Rightarrow>
           (case drgn_lazy_type_evaluate rec dicache member_type of
              (dicache', Inl err) \<Rightarrow> (dicache', Inl err)
            | (dicache', Inr (t, member_type')) \<Rightarrow>
                (if drgn_type_has_size (type t)
                 then (dicache', Inr (drgn_type_size (type t), member_type'))
                 else (dicache', Inl (Error DRGN_ERROR_OTHER)))))
    \<and> (\<forall>byte_size.
          uint (8 * byte_offset + 8 * byte_size - bit_offset - bit_field_size) =
          (8 * uint byte_offset + 8 * uint byte_size - uint bit_offset - uint bit_field_size)
            mod 2 ^ 64)"
proof -
  have be: "parse_member_offset rec dicache d member_type bit_field_size False =
      (dicache, Inr (8 * byte_offset + bit_offset, member_type))"
    using assms by (auto simp: parse_member_offset_def split: option.splits)
  have le: "parse_member_offset rec dicache d member_type bit_field_size True =
      (case member_byte_size rec dicache d member_type of
         (dicache', Inl err) \<Rightarrow> (dicache', Inl err)
       | (dicache', Inr (byte_size, member_type')) \<Rightarrow>
           (dicache', Inr (8 * byte_offset + 8 * byte_size - bit_offset - bit_field_size,
                           member_type')))"
    using assms
    by (auto simp: parse_member_offset_def algebra_simps
        split: option.splits prod.splits sum.splits)
  have bs: "member_byte_size rec dicache d member_type =
      (case dwarf_attr_integrate d DW_AT_byte_size of
         Some a \<Rightarrow>
           (case dwarf_formudata a of
              Some byte_size \<Rightarrow> (dicache, Inr (byte_size, member_type))
            | None \<Rightarrow> (dicache, Inl (Error DRGN_ERROR_OTHER)))
       | None \<Rightarrow>
           (case drgn_lazy_type_evaluate rec dicache member_type of
              (dicache', Inl err) \<Rightarrow> (dicache', Inl err)
            | (dicache', Inr (t, member_type')) \<Rightarrow>
                (if drgn_type_has_size (type t)
                 then (dicache', Inr (drgn_type_size (type t), member_type'))
                 else (dicache', Inl (Error DRGN_ERROR_OTHER)))))"
    by (auto simp: member_byte_size_def split: option.splits prod.splits sum.splits)
  show ?thesis using be le bs uint_member_offset by blast
qed

theorem parse_member_offset_bit_offset_witness:
  "parse_member_offset (drgn_type_from_dwarf_internal example_image) drgn_dwarf_info_cache_create
      bit_field_member_die (Thunk 1 False) 3 True =
     (drgn_dwarf_info_cache_create, Inr (0, Thunk 1 False))
   \<and> parse_member_offset (drgn_type_from_dwarf_internal example_image) drgn_dwarf_info_cache_create
      bit_field_member_die (Thunk 1 False) 3 False =
     (drgn_dwarf_info_cache_create, Inr (29, Thunk 1 False))"
  using parse_member_offset_bit_offset[of bit_field_member_die
      "\<lparr>code = DW_AT_bit_offset, data = Constant DW_FORM_data 29\<rparr>" 29 0
      "drgn_type_from_dwarf_internal example_image" drgn_dwarf_info_cache_create "Thunk 1 False" 3]
  by (simp add: bit_field_member_die_def dwarf_attr_integrate_def dwarf_formudata_def)

section \<open>The recursion: depth, fuel and the memoization maps\<close>

lemma body_cases [consumes 4, case_names limit hit lang fail miss]:
  assumes res: "type_from_dwarf_body rec img dicache d f c = (s', r)"
    and R: "resolves rec I E T B"
    and I: "I (dicache\<lparr>depth := depth dicache + 1\<rparr>)"
    and sub: "eager img d \<subseteq> T"
  obtains
    (limit) "1000 \<le> depth dicache" "s' = dicache" "r = Inl (Error DRGN_ERROR_RECURSION)"
  | (hit) entry where "depth dicache < 1000"
      "dwarf_type_map_search dicache d f = Some entry" "s' = dicache"
      "r = Inr (\<lparr>type = type entry, qualifiers = qualifiers entry\<rparr>, c)"
  | (lang) "depth dicache < 1000" "dwarf_type_map_search dicache d f = None"
      "s' = dicache" "r = Inl (Error DRGN_ERROR_OTHER)"
  | (fail) s1 e where "depth dicache < 1000" "dwarf_type_map_search dicache d f = None"
      "I s1" "E e" "s' = s1\<lparr>depth := depth s1 - 1\<rparr>" "r = Inl e"
  | (miss) s1 ret inc where "depth dicache < 1000" "dwarf_type_map_search dicache d f = None"
      "I s1" "eager img d \<inter> B = {}"
      "s' = dwarf_type_map_insert (s1\<lparr>depth := depth s1 - 1\<rparr>) d f
              \<lparr>type = type ret, qualifiers = qualifiers ret, is_incomplete_array = inc\<rparr>"
      "r = Inr (ret, map_option (\<lambda>b. inc) c)"
proof (cases "1000 \<le> depth dicache")
  case True
  with res have "s' = dicache" "r = Inl (Error DRGN_ERROR_RECURSION)"
    by (simp_all add: type_from_dwarf_body_def)
  with True show ?thesis by (rule limit)
next
  case False
  then have d: "depth dicache < 1000" by simp
  show ?thesis
  proof (cases "dwarf_type_map_search dicache d f")
    case (Some entry)
    with res d have "s' = dicache"
      "r = Inr (\<lparr>type = type entry, qualifiers = qualifiers entry\<rparr>, c)"
      by (simp_all add: type_from_dwarf_body_def)
    with d Some show ?thesis by (rule hit)
  next
    case None
    note srch = this
    show ?thesis
    proof (cases "drgn_language_from_die (dies img d)")
      case (Inl e)
      then have "e = Error DRGN_ERROR_OTHER"
        by (simp add: drgn_language_from_die_def split: option.splits)
      with res d srch Inl have "s' = dicache" "r = Inl (Error DRGN_ERROR_OTHER)"
        by (simp_all add: type_from_dwarf_body_def)
      with d srch show ?thesis by (rule lang)
    next
      case (Inr l)
      note l = this
      obtain s1 r1 where sw: "type_from_dwarf_switch rec img
          (dicache\<lparr>depth := depth dicache + 1\<rparr>) d l f = (s1, r1)"
        by (cases "type_from_dwarf_switch rec img (dicache\<lparr>depth := depth dicache + 1\<rparr>) d l f")
          auto
      from switch_post[OF sw R I sub]
      have I1: "I s1" and ok: "okres E (\<lambda>a. eager img d \<inter> B = {}) r1" by auto
      show ?thesis
      proof (cases r1)
        case (Inl e)
        with res d srch l sw have "s' = s1\<lparr>depth := depth s1 - 1\<rparr>" "r = Inl e"
          by (simp_all add: type_from_dwarf_body_def Let_def)
        moreover from ok Inl have "E e" by simp
        ultimately show ?thesis using d srch I1 by (intro fail)
      next
        case (Inr a)
        obtain ret inc where a: "a = (ret, inc)" by (cases a) auto
        have m: "(case c of None \<Rightarrow> None | Some b \<Rightarrow> Some inc) = map_option (\<lambda>b. inc) c"
          by (cases c) auto
        obtain t ok2 where al1: "alloc s1 = (t, ok2)" by (cases "alloc s1")
        define s2 where "s2 = t\<lparr>depth := depth t - 1\<rparr>"
        from al1 have al: "alloc (s1\<lparr>depth := depth s1 - 1\<rparr>) = (s2, ok2)"
          by (simp add: alloc_depth s2_def)
        have s2: "s2 = t\<lparr>depth := depth t - 1\<rparr>" by (simp add: s2_def)
        from alloc_post[OF al1 R I1] have I2: "I t" .
        show ?thesis
        proof (cases ok2)
          case False
          with res d srch l sw Inr a al have "s' = s2" "r = Inl (Error DRGN_ERROR_NO_MEMORY)"
            by (simp_all add: type_from_dwarf_body_def Let_def dwarf_type_map_insert_searched_def)
          with s2 have "s' = t\<lparr>depth := depth t - 1\<rparr>" "r = Inl (Error DRGN_ERROR_NO_MEMORY)"
            by simp_all
          with d srch I2 resolves_E(4)[OF R] show ?thesis by (intro fail)
        next
          case True
          with res d srch l sw Inr a al
          have "s' = dwarf_type_map_insert s2 d f
              \<lparr>type = type ret, qualifiers = qualifiers ret, is_incomplete_array = inc\<rparr>"
            "r = Inr (ret, map_option (\<lambda>b. inc) c)"
            by (simp_all add: type_from_dwarf_body_def Let_def m
                dwarf_type_map_insert_searched_def)
          with s2 have "s' = dwarf_type_map_insert (t\<lparr>depth := depth t - 1\<rparr>) d f
              \<lparr>type = type ret, qualifiers = qualifiers ret, is_incomplete_array = inc\<rparr>"
            "r = Inr (ret, map_option (\<lambda>b. inc) c)"
            by simp_all
          moreover from ok Inr have "eager img d \<inter> B = {}" by simp
          ultimately show ?thesis using d srch I2 by (intro miss)
        qed
      qed
    qed
  qed
qed

lemma depth_insert [simp]: "depth (dwarf_type_map_insert s d f e) = depth s"
  by (simp add: dwarf_type_map_insert_def)

lemma fuel_depth_stop:
  "type_from_dwarf_fuel n img st d f c = (s', r)
    \<Longrightarrow> depth s' = depth st \<and> r \<noteq> Inl (Error DRGN_ERROR_STOP)"
proof (induction n arbitrary: st d f c s' r)
  case 0
  then show ?case by auto
next
  case (Suc n)
  let ?I = "\<lambda>s. depth s = depth st + 1"
  have IH: "\<And>s t f c s1 r1. type_from_dwarf_fuel n img s t f c = (s1, r1)
      \<Longrightarrow> depth s1 = depth s \<and> r1 \<noteq> Inl (Error DRGN_ERROR_STOP)"
    using Suc.IH by blast
  have R: "resolves (type_from_dwarf_fuel n img) ?I (\<lambda>e. e \<noteq> Error DRGN_ERROR_STOP) UNIV {}"
    unfolding resolves_def using IH
    by (fastforce simp: okres_def split: sum.splits dest!: alloc_fields)
  from Suc.prems have body: "type_from_dwarf_body (type_from_dwarf_fuel n img) img st d f c
      = (s', r)" by simp
  have I: "?I (st\<lparr>depth := depth st + 1\<rparr>)" by simp
  have sub: "eager img d \<subseteq> UNIV" by simp
  from body R I sub show ?case
    by (cases rule: body_cases) auto
qed


lemma fuel_enough:
  "1000 \<le> depth st + n \<Longrightarrow> type_from_dwarf_fuel (Suc n) img st d f c = (s', r)
    \<Longrightarrow> r \<noteq> Inl Fuel_Exhausted"
proof (induction n arbitrary: st d f c s' r)
  case 0
  then show ?case by (auto simp: type_from_dwarf_body_def)
next
  case (Suc n)
  let ?I = "\<lambda>s. depth s = depth st + 1"
  let ?E = "\<lambda>e. e \<noteq> Fuel_Exhausted \<and> e \<noteq> Error DRGN_ERROR_STOP"
  have IH: "\<And>s t f c s1 r1. depth s = depth st + 1
      \<Longrightarrow> type_from_dwarf_fuel (Suc n) img s t f c = (s1, r1) \<Longrightarrow> r1 \<noteq> Inl Fuel_Exhausted"
    using Suc.IH Suc.prems(1) by (metis add_Suc_right add_Suc_shift Suc_eq_plus1)
  have R: "resolves (type_from_dwarf_fuel (Suc n) img) ?I ?E UNIV {}"
    unfolding resolves_def
  proof (intro conjI allI impI)
    fix s t f c s1 r1
    assume a: "type_from_dwarf_fuel (Suc n) img s t f c = (s1, r1)" and b: "depth s = depth st + 1"
    from fuel_depth_stop[OF a] b show "depth s1 = depth st + 1" by simp
    from fuel_depth_stop[OF a] IH[OF b a] show "okres ?E (\<lambda>a. t \<notin> {}) r1"
      by (cases r1) auto
  qed (auto dest!: alloc_fields)
  from Suc.prems(2) have body: "type_from_dwarf_body (type_from_dwarf_fuel (Suc n) img) img
      st d f c = (s', r)" by simp
  have I: "?I (st\<lparr>depth := depth st + 1\<rparr>)" by simp
  have sub: "eager img d \<subseteq> UNIV" by simp
  from body R I sub show ?case
    by (cases rule: body_cases) auto
qed

lemma drgn_type_from_dwarf_internal_fuel:
  "drgn_type_from_dwarf_internal img dicache d f c = (s', r) \<Longrightarrow> r \<noteq> Inl Fuel_Exhausted"
  unfolding drgn_type_from_dwarf_internal_def
  using fuel_enough[of dicache "1000 - depth dicache" img d f c s' r] by simp


lemma cache_inv_upd [simp]:
  "cache_inv img (s\<lparr>depth := n\<rparr>) = cache_inv img s"
  "cache_inv img (s\<lparr>types_created := n\<rparr>) = cache_inv img s"
  "cache_inv img (s\<lparr>allocations := a\<rparr>) = cache_inv img s"
  by (simp_all add: cache_inv_def)

lemma cache_inv_insert:
  "cache_inv img s \<Longrightarrow> d \<in> sound img \<Longrightarrow> cache_inv img (dwarf_type_map_insert s d f e)"
  by (auto simp: cache_inv_def dwarf_type_map_insert_def)

lemma search_Some_cached:
  "dwarf_type_map_search s d f = Some e \<Longrightarrow> map_tbl s d \<noteq> None"
  by (auto simp: dwarf_type_map_search_def split: option.splits)

lemma fuel_cache_inv:
  "type_from_dwarf_fuel n img st d f c = (s', r) \<Longrightarrow> cache_inv img st
    \<Longrightarrow> cache_inv img s' \<and> (d \<notin> sound img \<longrightarrow> isl r)"
proof (induction n arbitrary: st d f c s' r)
  case 0
  then show ?case by auto
next
  case (Suc n)
  let ?E = "\<lambda>e. e \<noteq> Error DRGN_ERROR_STOP"
  have R: "resolves (type_from_dwarf_fuel n img) (cache_inv img) ?E UNIV (- sound img)"
    unfolding resolves_def
  proof (intro conjI allI impI)
    fix s t f c s1 r1
    assume a: "type_from_dwarf_fuel n img s t f c = (s1, r1)" and b: "cache_inv img s"
    from Suc.IH[OF a b] show "cache_inv img s1" by simp
    from Suc.IH[OF a b] fuel_depth_stop[OF a] show "okres ?E (\<lambda>a. t \<notin> - sound img) r1"
      by (cases r1) auto
  qed (auto dest!: alloc_fields simp: cache_inv_def)
  from Suc.prems(1) have body: "type_from_dwarf_body (type_from_dwarf_fuel n img) img
      st d f c = (s', r)" by simp
  have I: "cache_inv img (st\<lparr>depth := depth st + 1\<rparr>)" using Suc.prems(2) by simp
  have sub: "eager img d \<subseteq> UNIV" by simp
  from body R I sub show ?case
  proof (cases rule: body_cases)
    case (hit entry)
    with Suc.prems(2) search_Some_cached[OF hit(2)] show ?thesis
      by (auto simp: cache_inv_def)
  next
    case (miss s1 ret inc)
    from miss(4) have "d \<in> sound img" by (auto intro: sound.intros)
    with miss show ?thesis by (simp add: cache_inv_insert)
  qed (use Suc.prems in auto)
qed





lemma drgn_type_from_dwarf_internal_cache_inv:
  "drgn_type_from_dwarf_internal img dicache d f c = (s', r) \<Longrightarrow> cache_inv img dicache
    \<Longrightarrow> cache_inv img s'"
  unfolding drgn_type_from_dwarf_internal_def by (drule fuel_cache_inv) auto


section \<open>Evaluating the model\<close>

lemma fuel_numeral:
  "type_from_dwarf_fuel (numeral k) img dicache d f c =
    type_from_dwarf_body (type_from_dwarf_fuel (pred_numeral k) img) img dicache d f c"
  by (simp add: numeral_eq_Suc)

lemmas eval_simps = drgn_type_from_dwarf_internal_def drgn_dwarf_info_cache_create_def
  fuel_numeral type_from_dwarf_body_def dwarf_type_map_search_def dwarf_type_map_insert_def
  dwarf_type_map_insert_searched_def alloc_def
  type_from_dwarf_switch_def qualifier_case_def unqualified_case_def
  drgn_language_from_die_def drgn_language_or_default_def dwarf_tag_def
  dwarf_attr_integrate_def dwarf_formudata_def dwarf_formsdata_def dwarf_formstring_def
  dwarf_formref_die_def dwarf_formflag_def dwarf_diename_def dwarf_bytesize_def
  dwarf_type_def dwarf_flag_def form_def
  drgn_type_from_dwarf_def drgn_type_from_dwarf_thunk_evaluate_fn_def
  drgn_lazy_type_evaluate_def drgn_lazy_type_from_dwarf_def drgn_type_from_dwarf_child_def
  drgn_base_type_from_dwarf_def base_type_encoding_switch_def
  drgn_dwarf_info_cache_find_complete_def drgn_dwarf_index_iterator_init_def
  drgn_dwarf_index_iterator_next_def
  member_byte_size_def parse_member_offset_def parse_member_def compound_dw_tag_def
  die_tag_name_def compound_type_definition_def drgn_compound_type_from_dwarf_def
  parse_enumerator_def enum_compatible_type_fallback_def enum_type_definition_def
  drgn_enum_type_from_dwarf_def drgn_typedef_type_from_dwarf_def
  drgn_pointer_type_from_dwarf_def drgn_program_word_size_def
  subrange_length_def array_dimension_vector_append_entry_def drgn_array_type_from_dwarf_def
  parse_formal_parameter_def drgn_function_type_from_dwarf_def
  creates new_type_def drgn_void_type_def drgn_type_has_size_def
  DW_ATE_boolean_def DW_ATE_complex_float_def DW_ATE_float_def DW_ATE_signed_def
  DW_ATE_signed_char_def DW_ATE_unsigned_def DW_ATE_unsigned_char_def UINT64_MAX_def
  DRGN_QUALIFIER_CONST_def DRGN_QUALIFIER_VOLATILE_def DRGN_QUALIFIER_RESTRICT_def
  DRGN_QUALIFIER_ATOMIC_def Let_def


section \<open>The memoization maps\<close>

lemma search_insert_primary:
  "dwarf_type_map_search (dwarf_type_map_insert s d True e) d True = Some e"
  by (simp add: dwarf_type_map_search_def dwarf_type_map_insert_def)

text \<open>
  Claim C1. When \<^verbatim>\<open>drgn_type_from_dwarf_internal\<close> has succeeded on a DIE with
  \<^verbatim>\<open>can_be_incomplete_array = true\<close>, the next call on the same DIE and cache, with
  the same flag, returns the same type descriptor and the same qualifiers, and leaves
  the cache as it is: it is answered from the entry the primary map holds for the DIE.
\<close>

theorem memo_equivalence:
  assumes res: "drgn_type_from_dwarf_internal img dicache d True c = (dicache', Inr (ret, c'))"
  shows "drgn_type_from_dwarf_internal img dicache' d True c2 = (dicache', Inr (ret, c2))
    \<and> (\<exists>entry. map_tbl dicache' d = Some entry \<and> type entry = type ret
          \<and> qualifiers entry = qualifiers ret)"
proof -
  let ?n = "1000 - depth dicache"
  let ?I = "\<lambda>s. depth s = depth dicache + 1"
  let ?E = "\<lambda>e. e \<noteq> Error DRGN_ERROR_STOP"
  have R: "resolves (type_from_dwarf_fuel ?n img) ?I ?E UNIV {}"
    unfolding resolves_def
  proof (intro conjI allI impI)
    fix s t f c s1 r1
    assume a: "type_from_dwarf_fuel ?n img s t f c = (s1, r1)" and b: "?I s"
    from fuel_depth_stop[OF a] b show "?I s1" by simp
    from fuel_depth_stop[OF a] show "okres ?E (\<lambda>a. t \<notin> {}) r1" by (cases r1) auto
  qed (auto dest!: alloc_fields)
  from res have body: "type_from_dwarf_body (type_from_dwarf_fuel ?n img) img dicache d True c
      = (dicache', Inr (ret, c'))"
    by (simp add: drgn_type_from_dwarf_internal_def)
  have I: "?I (dicache\<lparr>depth := depth dicache + 1\<rparr>)" by simp
  have sub: "eager img d \<subseteq> UNIV" by simp
  have ret: "\<lparr>type = type ret, qualifiers = qualifiers ret\<rparr> = ret" by simp
  from body R I sub
  have "depth dicache' < 1000 \<and> (\<exists>entry. dwarf_type_map_search dicache' d True = Some entry
      \<and> ret = \<lparr>type = type entry, qualifiers = qualifiers entry\<rparr>)"
  proof (cases rule: body_cases)
    case (hit entry)
    then show ?thesis by auto
  next
    case (miss s1 ret' inc)
    then show ?thesis by (auto simp: search_insert_primary)
  qed auto
  then obtain entry where d: "depth dicache' < 1000"
    and s: "dwarf_type_map_search dicache' d True = Some entry"
    and e: "ret = \<lparr>type = type entry, qualifiers = qualifiers entry\<rparr>" by auto
  from d s e have "drgn_type_from_dwarf_internal img dicache' d True c2
      = (dicache', Inr (ret, c2))"
    by (simp add: drgn_type_from_dwarf_internal_def type_from_dwarf_body_def)
  moreover from s have "map_tbl dicache' d = Some entry"
    by (auto simp: dwarf_type_map_search_def split: option.splits)
  ultimately show ?thesis using e by auto
qed

theorem memo_equivalence_witness:
  "snd (drgn_type_from_dwarf_internal example_image drgn_dwarf_info_cache_create 4 True None) =
     Inr (\<lparr>type = Typedef_Type 2 (Some DRGN_LANGUAGE_C) ''T1''
             (Incomplete_Array_Type 1 (Some DRGN_LANGUAGE_C)
               (Int_Type 0 (Some DRGN_LANGUAGE_C) ''int'' 4 True) 0) 0,
           qualifiers = 0\<rparr>, None)
   \<and> snd (drgn_type_from_dwarf_internal example_image
        (fst (drgn_type_from_dwarf_internal example_image drgn_dwarf_info_cache_create 4 True None))
        4 True None) =
     Inr (\<lparr>type = Typedef_Type 2 (Some DRGN_LANGUAGE_C) ''T1''
             (Incomplete_Array_Type 1 (Some DRGN_LANGUAGE_C)
               (Int_Type 0 (Some DRGN_LANGUAGE_C) ''int'' 4 True) 0) 0,
           qualifiers = 0\<rparr>, None)"
proof -
  let ?r = "drgn_type_from_dwarf_internal example_image drgn_dwarf_info_cache_create 4 True None"
  let ?t = "\<lparr>type = Typedef_Type 2 (Some DRGN_LANGUAGE_C) ''T1''
             (Incomplete_Array_Type 1 (Some DRGN_LANGUAGE_C)
               (Int_Type 0 (Some DRGN_LANGUAGE_C) ''int'' 4 True) 0) 0,
           qualifiers = 0\<rparr>"
  have 1: "snd ?r = Inr (?t, None)"
    by (simp add: eval_simps example_image_def example_dies_def mk_die_def)
  then have "?r = (fst ?r, Inr (?t, None))" by (simp add: prod_eq_iff)
  from memo_equivalence[OF this, of None] 1 show ?thesis by simp
qed

text \<open>
  Claim C2, evaluated where it fails. For the array DIE 2 of the example image, the call
  with \<^verbatim>\<open>can_be_incomplete_array = true\<close> reports an incomplete array; the first
  call after it with \<^verbatim>\<open>false\<close> returns an array of length 0 and reports
  \<^verbatim>\<open>is_incomplete_array = true\<close>; the second such call is answered from
  \<^verbatim>\<open>cant_be_incomplete_array_map\<close> and leaves the caller's cell as it was
  (\<open>False\<close>).
\<close>

theorem is_incomplete_array_ret_left_on_memo_hit:
  "(let (s1, r1) = drgn_type_from_dwarf_internal example_image drgn_dwarf_info_cache_create
                     2 True (Some False);
        (s2, r2) = drgn_type_from_dwarf_internal example_image s1 2 False (Some False);
        (s3, r3) = drgn_type_from_dwarf_internal example_image s2 2 False (Some False)
    in r1 = Inr (\<lparr>type = Incomplete_Array_Type 1 (Some DRGN_LANGUAGE_C)
                    (Int_Type 0 (Some DRGN_LANGUAGE_C) ''int'' 4 True) 0,
                  qualifiers = 0\<rparr>, Some True)
     \<and> r2 = Inr (\<lparr>type = Array_Type 2 (Some DRGN_LANGUAGE_C)
                    (Int_Type 0 (Some DRGN_LANGUAGE_C) ''int'' 4 True) 0 0,
                  qualifiers = 0\<rparr>, Some True)
     \<and> r3 = Inr (\<lparr>type = Array_Type 2 (Some DRGN_LANGUAGE_C)
                    (Int_Type 0 (Some DRGN_LANGUAGE_C) ''int'' 4 True) 0 0,
                  qualifiers = 0\<rparr>, Some False))"
  by (simp add: eval_simps example_image_def example_dies_def mk_die_def)


section \<open>Qualifiers\<close>

text \<open>
  Claim C6, evaluated where it fails. On a fresh cache the array DIE 2 of the example image
  reports \<^verbatim>\<open>is_incomplete_array = true\<close>, and the \<^verbatim>\<open>const\<close> DIE 3 whose
  \<^verbatim>\<open>DW_AT_type\<close> it is reports \<open>false\<close> (with the const bit set). With
  \<^verbatim>\<open>can_be_incomplete_array = false\<close> the array DIE 2 and its typedef DIE 4 come back with
  length 0, and the \<^verbatim>\<open>const\<close> DIE 3 comes back as an incomplete array: the qualifier cases
  hand neither \<^verbatim>\<open>can_be_incomplete_array\<close> nor \<^verbatim>\<open>is_incomplete_array_ret\<close> on to
  \<^verbatim>\<open>drgn_type_from_dwarf_child\<close>, as the typedef case does.
\<close>

theorem qualifier_drops_is_incomplete_array:
  "snd (drgn_type_from_dwarf_internal example_image drgn_dwarf_info_cache_create 2 True (Some False))
     = Inr (\<lparr>type = Incomplete_Array_Type 1 (Some DRGN_LANGUAGE_C)
                (Int_Type 0 (Some DRGN_LANGUAGE_C) ''int'' 4 True) 0,
             qualifiers = 0\<rparr>, Some True)
   \<and> snd (drgn_type_from_dwarf_internal example_image drgn_dwarf_info_cache_create 3 True
            (Some False))
     = Inr (\<lparr>type = Incomplete_Array_Type 1 (Some DRGN_LANGUAGE_C)
                (Int_Type 0 (Some DRGN_LANGUAGE_C) ''int'' 4 True) 0,
             qualifiers = DRGN_QUALIFIER_CONST\<rparr>, Some False)
   \<and> snd (drgn_type_from_dwarf_internal example_image drgn_dwarf_info_cache_create 2 False
            (Some False))
     = Inr (\<lparr>type = Array_Type 1 (Some DRGN_LANGUAGE_C)
                (Int_Type 0 (Some DRGN_LANGUAGE_C) ''int'' 4 True) 0 0,
             qualifiers = 0\<rparr>, Some True)
   \<and> snd (drgn_type_from_dwarf_internal example_image drgn_dwarf_info_cache_create 4 False
            (Some False))
     = Inr (\<lparr>type = Typedef_Type 2 (Some DRGN_LANGUAGE_C) ''T1''
                (Array_Type 1 (Some DRGN_LANGUAGE_C)
                  (Int_Type 0 (Some DRGN_LANGUAGE_C) ''int'' 4 True) 0 0) 0,
             qualifiers = 0\<rparr>, Some True)
   \<and> snd (drgn_type_from_dwarf_internal example_image drgn_dwarf_info_cache_create 3 False
            (Some False))
     = Inr (\<lparr>type = Incomplete_Array_Type 1 (Some DRGN_LANGUAGE_C)
                (Int_Type 0 (Some DRGN_LANGUAGE_C) ''int'' 4 True) 0,
             qualifiers = DRGN_QUALIFIER_CONST\<rparr>, Some False)"
  by (simp add: eval_simps example_image_def example_dies_def mk_die_def)

section \<open>The recursion limit\<close>

















section \<open>The members of a compound type\<close>

lemma spec_parse_members_append:
  "spec_parse_members rec img s le (ps @ qs) builder =
    (case spec_parse_members rec img s le ps builder of
       (s', Inl err) \<Rightarrow> (s', Inl err)
     | (s', Inr builder') \<Rightarrow> spec_parse_members rec img s' le qs builder')"
  by (induction ps arbitrary: s builder) (auto split: prod.splits sum.splits)

lemma parse_member_length:
  "parse_member rec s d le b builder = (s', Inr builder') \<Longrightarrow> length builder' = Suc (length builder)"
  by (auto simp: parse_member_def split: option.splits sum.splits prod.splits)

lemma spec_parse_members_length:
  "spec_parse_members rec img s le ps builder = (s', Inr builder')
    \<Longrightarrow> length builder' = length builder + length ps"
  by (induction ps arbitrary: s builder)
     (auto split: prod.splits sum.splits dest!: parse_member_length)

lemma compound_children_loop_spec:
  "compound_children_loop rec img s le cs member builder =
    (if pending_members img member cs = [] then (s, Inr (None, builder))
     else
       (case spec_parse_members rec img s le
               (map (\<lambda>m. (m, False)) (butlast (pending_members img member cs))) builder of
          (s', Inl err) \<Rightarrow> (s', Inl err)
        | (s', Inr builder') \<Rightarrow> (s', Inr (Some (last (pending_members img member cs)), builder'))))"
proof (induction cs arbitrary: s member builder)
  case Nil
  then show ?case by (cases member) (simp_all add: pending_members_def)
next
  case (Cons child rest)
  show ?case
  proof (cases "dwarf_tag (dies img child) = DW_TAG_member")
    case False
    then have eq: "pending_members img member (child # rest) = pending_members img member rest"
      by (simp add: pending_members_def)
    show ?thesis unfolding eq using False by (simp add: Cons.IH)
  next
    case True
    show ?thesis
    proof (cases member)
      case None
      with True have eq: "pending_members img member (child # rest)
          = pending_members img (Some child) rest"
        by (simp add: pending_members_def)
      show ?thesis unfolding eq using True None by (simp add: Cons.IH)
    next
      case (Some m)
      with True have eq: "pending_members img member (child # rest)
          = m # pending_members img (Some child) rest"
        and ne: "pending_members img (Some child) rest \<noteq> []"
        by (simp_all add: pending_members_def)
      show ?thesis
        unfolding eq using True Some ne
        by (simp add: Cons.IH split: prod.splits sum.splits)
    qed
  qed
qed

lemma lazy_type_flag:
  "drgn_lazy_type_from_dwarf s m b = (s', Inr t) \<Longrightarrow> \<exists>x. t = Thunk x b"
  by (auto simp: drgn_lazy_type_from_dwarf_def split: option.splits prod.splits bool.splits)

text \<open>
  Claim C5. For a compound DIE that is no declaration, has a byte size and whose children libdw
  can walk, \<^verbatim>\<open>drgn_compound_type_from_dwarf\<close> parses the \<^verbatim>\<open>DW_TAG_member\<close> children in order,
  every one but the last with \<^verbatim>\<open>can_be_incomplete_array = false\<close>, and the last with
  \<^verbatim>\<open>can_be_incomplete_array\<close> true exactly when the kind is not a union and another member
  precedes it; the type is then created from the members parsed. The lazy type that
  \<^verbatim>\<open>parse_member\<close> creates is a thunk that carries this value.
\<close>

theorem last_member_can_be_incomplete_array:
  assumes ok: "die_children_ok (dies img d)"
    and sz: "dwarf_bytesize (dies img d) \<noteq> - 1"
  shows "compound_type_definition rec img dicache d lang kind tag =
      (case spec_parse_members rec img dicache
              (case dwarf_die_is_little_endian (dies img d) False of Inr b \<Rightarrow> b | Inl err \<Rightarrow> False)
              (spec_member_flags kind (member_children img (dies img d))) [] of
         (dicache', Inl err) \<Rightarrow> (dicache', Inl err)
       | (dicache', Inr builder) \<Rightarrow>
           drgn_compound_type_create dicache' kind builder tag
             (word_of_int (dwarf_bytesize (dies img d))) lang)
    \<and> (\<forall>s m b s' t. drgn_lazy_type_from_dwarf s m b = (s', Inr t) \<longrightarrow> (\<exists>x. t = Thunk x b))"
proof (intro conjI allI impI)
  let ?ms = "member_children img (dies img d)"
  let ?le = "case dwarf_die_is_little_endian (dies img d) False of Inr b \<Rightarrow> b | Inl err \<Rightarrow> False"
  have pm: "pending_members img None (die_children (dies img d)) = ?ms"
    by (simp add: pending_members_def member_children_def)
  show "compound_type_definition rec img dicache d lang kind tag =
      (case spec_parse_members rec img dicache ?le (spec_member_flags kind ?ms) [] of
         (dicache', Inl err) \<Rightarrow> (dicache', Inl err)
       | (dicache', Inr builder) \<Rightarrow>
           drgn_compound_type_create dicache' kind builder tag
             (word_of_int (dwarf_bytesize (dies img d))) lang)"
  proof (cases "?ms = []")
    case True
    with ok sz show ?thesis
      by (simp add: compound_type_definition_def compound_children_loop_spec pm
          spec_member_flags_def Let_def)
  next
    case False
    have len: "builder \<noteq> [] \<longleftrightarrow> butlast ?ms \<noteq> []"
      if "spec_parse_members rec img dicache ?le (map (\<lambda>m. (m, False)) (butlast ?ms)) [] = (s', Inr builder)"
      for s' builder
    proof -
      have "length builder = length (butlast ?ms)"
        using spec_parse_members_length[OF that] by (simp del: length_butlast)
      then show ?thesis by (metis length_0_conv)
    qed
    from False ok sz show ?thesis
      by (auto simp: compound_type_definition_def compound_children_loop_spec pm
          spec_member_flags_def Let_def spec_parse_members_append len
          split: prod.splits sum.splits)
  qed
qed (rule lazy_type_flag)



theorem last_member_can_be_incomplete_array_witness:
  "snd (compound_type_definition (drgn_type_from_dwarf_internal example_image) example_image
      drgn_dwarf_info_cache_create 9 (Some DRGN_LANGUAGE_C) DRGN_TYPE_STRUCT (Some ''v''))
    = Inr (Compound_Type 0 (Some DRGN_LANGUAGE_C) DRGN_TYPE_STRUCT (Some ''v'') 4
        [Member (Thunk 1 False) (Some ''n'') 0 0, Member (Thunk 2 True) (Some ''a'') 32 0])
   \<and> snd (compound_type_definition (drgn_type_from_dwarf_internal example_image) example_image
      drgn_dwarf_info_cache_create 12 (Some DRGN_LANGUAGE_C) DRGN_TYPE_UNION (Some ''u''))
    = Inr (Compound_Type 0 (Some DRGN_LANGUAGE_C) DRGN_TYPE_UNION (Some ''u'') 4
        [Member (Thunk 1 False) (Some ''n'') 0 0, Member (Thunk 2 False) (Some ''a'') 32 0])
   \<and> snd (compound_type_definition (drgn_type_from_dwarf_internal example_image) example_image
      drgn_dwarf_info_cache_create 13 (Some DRGN_LANGUAGE_C) DRGN_TYPE_STRUCT (Some ''w''))
    = Inr (Compound_Type 0 (Some DRGN_LANGUAGE_C) DRGN_TYPE_STRUCT (Some ''w'') 0
        [Member (Thunk 2 False) (Some ''a'') 32 0])"
proof -
  let ?rec = "drgn_type_from_dwarf_internal example_image"
  have ok: "die_children_ok (dies example_image 9)" "die_children_ok (dies example_image 12)"
    "die_children_ok (dies example_image 13)"
    by (simp_all add: example_image_def example_dies_def mk_die_def)
  have sz: "dwarf_bytesize (dies example_image 9) \<noteq> - 1"
    "dwarf_bytesize (dies example_image 12) \<noteq> - 1"
    "dwarf_bytesize (dies example_image 13) \<noteq> - 1"
    by (simp_all add: example_image_def example_dies_def mk_die_def dwarf_bytesize_def
        dwarf_attr_integrate_def dwarf_formudata_def)
  have fl: "spec_member_flags DRGN_TYPE_STRUCT (member_children example_image (dies example_image 9))
        = [(10, False), (11, True)]"
    "spec_member_flags DRGN_TYPE_UNION (member_children example_image (dies example_image 12))
        = [(10, False), (11, False)]"
    "spec_member_flags DRGN_TYPE_STRUCT (member_children example_image (dies example_image 13))
        = [(11, False)]"
    by (simp_all add: spec_member_flags_def member_children_def example_image_def example_dies_def
        mk_die_def dwarf_tag_def)
  have le: "dwarf_die_is_little_endian (dies example_image 9) False = Inr True"
    "dwarf_die_is_little_endian (dies example_image 12) False = Inr True"
    "dwarf_die_is_little_endian (dies example_image 13) False = Inr True"
    by (simp_all add: dwarf_die_is_little_endian_def endianity_switch_def dwarf_attr_integrate_def
        example_image_def example_dies_def mk_die_def)
  have bs: "dwarf_bytesize (dies example_image 9) = 4" "dwarf_bytesize (dies example_image 12) = 4"
    "dwarf_bytesize (dies example_image 13) = 0"
    by (simp_all add: example_image_def example_dies_def mk_die_def dwarf_bytesize_def
        dwarf_attr_integrate_def dwarf_formudata_def)
  have pm: "spec_parse_members ?rec example_image drgn_dwarf_info_cache_create True
        [(10, False), (11, b)] []
      = (drgn_dwarf_info_cache_create,
         Inr [Member (Thunk 1 False) (Some ''n'') 0 0, Member (Thunk 2 b) (Some ''a'') 32 0])"
    "spec_parse_members ?rec example_image drgn_dwarf_info_cache_create True [(11, b)] []
      = (drgn_dwarf_info_cache_create, Inr [Member (Thunk 2 b) (Some ''a'') 32 0])" for b
    by (simp_all add: parse_member_def parse_member_offset_def drgn_lazy_type_from_dwarf_def
        dwarf_attr_integrate_def dwarf_formudata_def dwarf_formstring_def dwarf_formref_die_def
        example_image_def example_dies_def mk_die_def)
  have tc: "types_created drgn_dwarf_info_cache_create = 0"
    by (simp add: drgn_dwarf_info_cache_create_def)
  from last_member_can_be_incomplete_array[OF ok(1) sz(1), of ?rec drgn_dwarf_info_cache_create
      "Some DRGN_LANGUAGE_C" DRGN_TYPE_STRUCT "Some ''v''"]
    last_member_can_be_incomplete_array[OF ok(2) sz(2), of ?rec drgn_dwarf_info_cache_create
      "Some DRGN_LANGUAGE_C" DRGN_TYPE_UNION "Some ''u''"]
    last_member_can_be_incomplete_array[OF ok(3) sz(3), of ?rec drgn_dwarf_info_cache_create
      "Some DRGN_LANGUAGE_C" DRGN_TYPE_STRUCT "Some ''w''"]
  show ?thesis
    by (simp only: fl le bs pm tc drgn_compound_type_create_def new_type_def sum.case prod.case
        snd_conv word_of_int_numeral word_of_int_0 simp_thms)
qed

section \<open>Failures that the recursion never returns\<close>

lemma fuel_not_unreachable:
  "type_from_dwarf_fuel n img st d f c = (s', r) \<Longrightarrow> r \<noteq> Inl Unreachable"
proof (induction n arbitrary: st d f c s' r)
  case 0
  then show ?case by auto
next
  case (Suc n)
  let ?I = "\<lambda>s. depth s = depth st + 1"
  let ?E = "\<lambda>e. e \<noteq> Unreachable \<and> e \<noteq> Error DRGN_ERROR_STOP"
  have R: "resolves (type_from_dwarf_fuel n img) ?I ?E UNIV {}"
    unfolding resolves_def
  proof (intro conjI allI impI)
    fix s t f c s1 r1
    assume a: "type_from_dwarf_fuel n img s t f c = (s1, r1)" and b: "depth s = depth st + 1"
    from fuel_depth_stop[OF a] b show "depth s1 = depth st + 1" by simp
    from fuel_depth_stop[OF a] Suc.IH[OF a] show "okres ?E (\<lambda>a. t \<notin> {}) r1"
      by (cases r1) auto
  qed (auto dest!: alloc_fields)
  from Suc.prems have body: "type_from_dwarf_body (type_from_dwarf_fuel n img) img
      st d f c = (s', r)" by simp
  have I: "?I (st\<lparr>depth := depth st + 1\<rparr>)" by simp
  have sub: "eager img d \<subseteq> UNIV" by simp
  from body R I sub show ?case
  proof (cases rule: body_cases)
    case limit
    then show ?thesis by simp
  next
    case (hit entry)
    then show ?thesis by simp
  next
    case lang
    then show ?thesis by simp
  next
    case (fail s1 e)
    then show ?thesis by simp
  next
    case (miss s1 ret inc)
    then show ?thesis by simp
  qed
qed

lemma internal_not_unreachable:
  "snd (drgn_type_from_dwarf_internal img dicache d f c) \<noteq> Inl Unreachable"
proof -
  obtain s r where res: "type_from_dwarf_fuel (Suc (1000 - depth dicache)) img dicache d f c = (s, r)"
    by (cases "type_from_dwarf_fuel (Suc (1000 - depth dicache)) img dicache d f c")
  from fuel_not_unreachable[OF res] res show ?thesis
    by (simp only: drgn_type_from_dwarf_internal_def snd_conv simp_thms)
qed

lemma internal_not_stop:
  "snd (drgn_type_from_dwarf_internal img dicache d f c) \<noteq> Inl (Error DRGN_ERROR_STOP)"
proof -
  obtain s r where res: "type_from_dwarf_fuel (Suc (1000 - depth dicache)) img dicache d f c = (s, r)"
    by (cases "type_from_dwarf_fuel (Suc (1000 - depth dicache)) img dicache d f c")
  from fuel_depth_stop[OF res] res show ?thesis
    by (simp only: drgn_type_from_dwarf_internal_def snd_conv simp_thms)
qed


section \<open>Declarations and the name index\<close>

text \<open>
  Claim C9. Let a compound or enumeration DIE be a declaration with a name. When the index
  holds two or more DIEs under that name and the DIE's tag, \<^verbatim>\<open>drgn_compound_type_from_dwarf\<close>
  (\<^verbatim>\<open>drgn_enum_type_from_dwarf\<close>) resolves none of them and returns a new incomplete compound
  (enumeration) type of that name. When the index holds exactly one, that DIE is resolved and
  its type is returned, or the failure of resolving it. The nested call never fails with
  \<^verbatim>\<open>DRGN_ERROR_STOP\<close>, which is the assumption on \<open>rec\<close>.
\<close>

theorem declaration_resolved_through_index:
  assumes name: "die_tag_name (dies img d) = Inr (Some n)"
    and decl: "dwarf_flag (dies img d) DW_AT_declaration = Some True"
    and nostop: "\<forall>s t f c. snd (rec s t f c) \<noteq> Inl (Error DRGN_ERROR_STOP)"
  shows "(\<forall>tag. compound_dw_tag kind = Some tag \<longrightarrow>
        (2 \<le> length (dindex img n tag) \<longrightarrow>
           drgn_compound_type_from_dwarf rec img dicache d lang kind =
             (dicache\<lparr>types_created := Suc (types_created dicache)\<rparr>,
              Inr (Incomplete_Compound_Type (types_created dicache) lang kind (Some n))))
      \<and> (\<forall>x. dindex img n tag = [x] \<longrightarrow>
           drgn_compound_type_from_dwarf rec img dicache d lang kind =
             (case rec dicache x True None of
                (s, Inl e) \<Rightarrow> (s, Inl e)
              | (s, Inr (ret, cell)) \<Rightarrow> (s, Inr (type ret)))))
    \<and> (2 \<le> length (dindex img n DW_TAG_enumeration_type) \<longrightarrow>
           drgn_enum_type_from_dwarf rec img dicache d lang =
             (dicache\<lparr>types_created := Suc (types_created dicache)\<rparr>,
              Inr (Incomplete_Enum_Type (types_created dicache) lang (Some n))))
    \<and> (\<forall>x. dindex img n DW_TAG_enumeration_type = [x] \<longrightarrow>
           drgn_enum_type_from_dwarf rec img dicache d lang =
             (case rec dicache x True None of
                (s, Inl e) \<Rightarrow> (s, Inl e)
              | (s, Inr (ret, cell)) \<Rightarrow> (s, Inr (type ret))))"
proof -
  have two: "drgn_dwarf_info_cache_find_complete rec img dicache tag n
      = (dicache, Inl (Error DRGN_ERROR_STOP))" if "2 \<le> length (dindex img n tag)" for tag
  proof -
    from that obtain x y zs where "dindex img n tag = x # y # zs"
      by (cases "dindex img n tag"; cases "tl (dindex img n tag)") auto
    then show ?thesis
      by (simp add: drgn_dwarf_info_cache_find_complete_def drgn_dwarf_index_iterator_init_def
          drgn_dwarf_index_iterator_next_def)
  qed
  have one: "drgn_dwarf_info_cache_find_complete rec img dicache tag n
      = (case rec dicache x True None of
           (s, Inl e) \<Rightarrow> (s, Inl e)
         | (s, Inr (ret, cell)) \<Rightarrow> (s, Inr (type ret)))" if "dindex img n tag = [x]" for tag x
    using that
    by (simp add: drgn_dwarf_info_cache_find_complete_def drgn_dwarf_index_iterator_init_def
        drgn_dwarf_index_iterator_next_def drgn_type_from_dwarf_def
        split: prod.splits sum.splits)
  have ns: "rec dicache x True None \<noteq> (s, Inl (Error DRGN_ERROR_STOP))" for x s
    using nostop[rule_format, of dicache x True None] by auto
  show ?thesis
  proof (intro conjI allI impI)
    fix tag
    assume "compound_dw_tag kind = Some tag" "2 \<le> length (dindex img n tag)"
    then show "drgn_compound_type_from_dwarf rec img dicache d lang kind =
             (dicache\<lparr>types_created := Suc (types_created dicache)\<rparr>,
              Inr (Incomplete_Compound_Type (types_created dicache) lang kind (Some n)))"
      using name decl
      by (simp add: drgn_compound_type_from_dwarf_def two
          drgn_incomplete_compound_type_create_def new_type_def)
  next
    fix tag x
    assume "compound_dw_tag kind = Some tag" "dindex img n tag = [x]"
    then show "drgn_compound_type_from_dwarf rec img dicache d lang kind =
             (case rec dicache x True None of
                (s, Inl e) \<Rightarrow> (s, Inl e)
              | (s, Inr (ret, cell)) \<Rightarrow> (s, Inr (type ret)))"
      using name decl ns[of x]
      by (auto simp: drgn_compound_type_from_dwarf_def one split: prod.splits sum.splits)
  next
    assume "2 \<le> length (dindex img n DW_TAG_enumeration_type)"
    then show "drgn_enum_type_from_dwarf rec img dicache d lang =
             (dicache\<lparr>types_created := Suc (types_created dicache)\<rparr>,
              Inr (Incomplete_Enum_Type (types_created dicache) lang (Some n)))"
      using name decl
      by (simp add: drgn_enum_type_from_dwarf_def two
          drgn_incomplete_enum_type_create_def new_type_def)
  next
    fix x
    assume "dindex img n DW_TAG_enumeration_type = [x]"
    then show "drgn_enum_type_from_dwarf rec img dicache d lang =
             (case rec dicache x True None of
                (s, Inl e) \<Rightarrow> (s, Inl e)
              | (s, Inr (ret, cell)) \<Rightarrow> (s, Inr (type ret)))"
      using name decl ns[of x]
      by (auto simp: drgn_enum_type_from_dwarf_def one split: prod.splits sum.splits)
  qed
qed


theorem declaration_resolved_through_index_witness:
  "snd (drgn_compound_type_from_dwarf (drgn_type_from_dwarf_internal index_image) index_image
        drgn_dwarf_info_cache_create 2 (Some DRGN_LANGUAGE_C) DRGN_TYPE_STRUCT)
     = Inr (Incomplete_Compound_Type 0 (Some DRGN_LANGUAGE_C) DRGN_TYPE_STRUCT (Some ''p''))
   \<and> snd (drgn_compound_type_from_dwarf (drgn_type_from_dwarf_internal index_image) index_image
        drgn_dwarf_info_cache_create 5 (Some DRGN_LANGUAGE_C) DRGN_TYPE_STRUCT)
     = Inr (Compound_Type 0 (Some DRGN_LANGUAGE_C) DRGN_TYPE_STRUCT (Some ''q'') 4 [])
   \<and> snd (drgn_enum_type_from_dwarf (drgn_type_from_dwarf_internal index_image) index_image
        drgn_dwarf_info_cache_create 7 (Some DRGN_LANGUAGE_C))
     = Inr (Incomplete_Enum_Type 0 (Some DRGN_LANGUAGE_C) (Some ''e''))
   \<and> snd (drgn_enum_type_from_dwarf (drgn_type_from_dwarf_internal index_image) index_image
        drgn_dwarf_info_cache_create 12 (Some DRGN_LANGUAGE_C))
     = Inr (Enum_Type 1 (Some DRGN_LANGUAGE_C) (Some ''g'')
              (Int_Type 0 (Some DRGN_LANGUAGE_C) ''int'' 4 True) [(''A'', 0), (''B'', 1)])"
proof -
  let ?rec = "drgn_type_from_dwarf_internal index_image"
  let ?c = drgn_dwarf_info_cache_create
  have nostop: "\<forall>s t f c. snd (?rec s t f c) \<noteq> Inl (Error DRGN_ERROR_STOP)"
    by (simp add: internal_not_stop)
  have name: "die_tag_name (dies index_image 2) = Inr (Some ''p'')"
    "die_tag_name (dies index_image 5) = Inr (Some ''q'')"
    "die_tag_name (dies index_image 7) = Inr (Some ''e'')"
    "die_tag_name (dies index_image 12) = Inr (Some ''g'')"
    by (simp_all add: die_tag_name_def dwarf_attr_integrate_def dwarf_formstring_def
        index_image_def index_dies_def mk_die_def)
  have decl: "dwarf_flag (dies index_image 2) DW_AT_declaration = Some True"
    "dwarf_flag (dies index_image 5) DW_AT_declaration = Some True"
    "dwarf_flag (dies index_image 7) DW_AT_declaration = Some True"
    "dwarf_flag (dies index_image 12) DW_AT_declaration = Some True"
    by (simp_all add: dwarf_flag_def dwarf_attr_integrate_def dwarf_formflag_def
        index_image_def index_dies_def mk_die_def)
  have idx: "dindex index_image ''p'' DW_TAG_structure_type = [3, 4]"
    "dindex index_image ''q'' DW_TAG_structure_type = [6]"
    "dindex index_image ''e'' DW_TAG_enumeration_type = [8, 9]"
    "dindex index_image ''g'' DW_TAG_enumeration_type = [13]"
    by (simp_all add: index_image_def)
  have kind: "compound_dw_tag DRGN_TYPE_STRUCT = Some DW_TAG_structure_type"
    by (simp add: compound_dw_tag_def)
  have tc: "types_created ?c = 0" by (simp add: drgn_dwarf_info_cache_create_def)
  have q: "snd (?rec ?c 6 True None)
      = Inr (\<lparr>type = Compound_Type 0 (Some DRGN_LANGUAGE_C) DRGN_TYPE_STRUCT (Some ''q'') 4 [],
              qualifiers = 0\<rparr>, None)"
    by (simp add: eval_simps index_image_def index_dies_def mk_die_def
        dwarf_die_is_little_endian_def endianity_switch_def)
  have g: "snd (?rec ?c 13 True None)
      = Inr (\<lparr>type = Enum_Type 1 (Some DRGN_LANGUAGE_C) (Some ''g'')
                (Int_Type 0 (Some DRGN_LANGUAGE_C) ''int'' 4 True) [(''A'', 0), (''B'', 1)],
              qualifiers = 0\<rparr>, None)"
    by (simp add: eval_simps index_image_def index_dies_def mk_die_def)
  note p = declaration_resolved_through_index[OF name(1) decl(1) nostop,
      of DRGN_TYPE_STRUCT ?c "Some DRGN_LANGUAGE_C"]
  note q' = declaration_resolved_through_index[OF name(2) decl(2) nostop,
      of DRGN_TYPE_STRUCT ?c "Some DRGN_LANGUAGE_C"]
  note e = declaration_resolved_through_index[OF name(3) decl(3) nostop,
      of DRGN_TYPE_STRUCT ?c "Some DRGN_LANGUAGE_C"]
  note g' = declaration_resolved_through_index[OF name(4) decl(4) nostop,
      of DRGN_TYPE_STRUCT ?c "Some DRGN_LANGUAGE_C"]
  have 1: "snd (drgn_compound_type_from_dwarf ?rec index_image ?c 2 (Some DRGN_LANGUAGE_C)
        DRGN_TYPE_STRUCT)
     = Inr (Incomplete_Compound_Type 0 (Some DRGN_LANGUAGE_C) DRGN_TYPE_STRUCT (Some ''p''))"
    using p kind idx(1) tc by simp
  have 2: "snd (drgn_compound_type_from_dwarf ?rec index_image ?c 5 (Some DRGN_LANGUAGE_C)
        DRGN_TYPE_STRUCT)
     = Inr (Compound_Type 0 (Some DRGN_LANGUAGE_C) DRGN_TYPE_STRUCT (Some ''q'') 4 [])"
    using q' kind idx(2) q by (auto split: prod.splits sum.splits)
  have 3: "snd (drgn_enum_type_from_dwarf ?rec index_image ?c 7 (Some DRGN_LANGUAGE_C))
     = Inr (Incomplete_Enum_Type 0 (Some DRGN_LANGUAGE_C) (Some ''e''))"
    using e idx(3) tc by simp
  have 4: "snd (drgn_enum_type_from_dwarf ?rec index_image ?c 12 (Some DRGN_LANGUAGE_C))
     = Inr (Enum_Type 1 (Some DRGN_LANGUAGE_C) (Some ''g'')
              (Int_Type 0 (Some DRGN_LANGUAGE_C) ''int'' 4 True) [(''A'', 0), (''B'', 1)])"
    using g' idx(4) g by (auto split: prod.splits sum.splits)
  from 1 2 3 4 show ?thesis by simp
qed

section \<open>Enumerators as objects\<close>

text \<open>
  Claim C10. \<^verbatim>\<open>drgn_object_from_dwarf_enumerator\<close> ends in \<^verbatim>\<open>UNREACHABLE()\<close> exactly when the
  enumeration DIE was resolved and the type it resolved to has no enumerator of the name asked
  for: no error is returned for a name that is missing. When the type has such an enumerator
  an object is returned, and when resolving the DIE fails that failure is returned.
\<close>

theorem enumerator_no_match_unreachable:
  "(snd (drgn_object_from_dwarf_enumerator img dicache d name) = Inl Unreachable)
     = (\<exists>s qt c. drgn_type_from_dwarf_internal img dicache d True None = (s, Inr (qt, c))
          \<and> name \<notin> fst ` set (drgn_type_enumerators (type qt)))
   \<and> (\<forall>s qt c. drgn_type_from_dwarf_internal img dicache d True None = (s, Inr (qt, c))
          \<longrightarrow> name \<in> fst ` set (drgn_type_enumerators (type qt))
          \<longrightarrow> (\<exists>obj. drgn_object_from_dwarf_enumerator img dicache d name = (s, Inr obj)))
   \<and> (\<forall>s e. drgn_type_from_dwarf_internal img dicache d True None = (s, Inl e)
          \<longrightarrow> drgn_object_from_dwarf_enumerator img dicache d name = (s, Inl e))"
proof -
  have nf: "find (\<lambda>e. fst e = name) es = None \<longleftrightarrow> name \<notin> fst ` set es"
    for es :: "(string \<times> 64 word) list"
    by (force simp: find_None_iff)
  obtain s r where res: "drgn_type_from_dwarf_internal img dicache d True None = (s, r)"
    by (cases "drgn_type_from_dwarf_internal img dicache d True None")
  have nu: "r \<noteq> Inl Unreachable"
    using internal_not_unreachable[of img dicache d True None] res by simp
  show ?thesis
  proof (cases r)
    case (Inl e)
    with res nu show ?thesis
      by (simp add: drgn_object_from_dwarf_enumerator_def drgn_type_from_dwarf_def)
  next
    case (Inr p)
    obtain qt c where p: "p = (qt, c)" by (cases p)
    show ?thesis
    proof (cases "find (\<lambda>e. fst e = name) (drgn_type_enumerators (type qt))")
      case None
      with res Inr p nf[of "drgn_type_enumerators (type qt)"] show ?thesis
        by (simp add: drgn_object_from_dwarf_enumerator_def drgn_type_from_dwarf_def)
    next
      case (Some e)
      with nf[of "drgn_type_enumerators (type qt)"]
      have "name \<in> fst ` set (drgn_type_enumerators (type qt))" by auto
      with res Inr p Some show ?thesis
        by (simp add: drgn_object_from_dwarf_enumerator_def drgn_type_from_dwarf_def)
    qed
  qed
qed


theorem enumerator_no_match_unreachable_witness:
  "snd (drgn_object_from_dwarf_enumerator index_image drgn_dwarf_info_cache_create 8 ''B'')
     = Inl Unreachable
   \<and> snd (drgn_object_from_dwarf_enumerator index_image drgn_dwarf_info_cache_create 8 ''A'')
     = Inr (Signed_Object
        \<lparr>type = Enum_Type 1 (Some DRGN_LANGUAGE_C) (Some ''e'')
            (Int_Type 0 (Some DRGN_LANGUAGE_C) ''int'' 4 True) [(''A'', 0)],
         qualifiers = 0\<rparr> 0 0)"
proof -
  let ?r = "drgn_type_from_dwarf_internal index_image drgn_dwarf_info_cache_create 8 True None"
  let ?qt = "\<lparr>type = Enum_Type 1 (Some DRGN_LANGUAGE_C) (Some ''e'')
            (Int_Type 0 (Some DRGN_LANGUAGE_C) ''int'' 4 True) [(''A'', 0)],
         qualifiers = 0\<rparr>"
  have ev: "snd ?r = Inr (?qt, None)"
    by (simp add: eval_simps index_image_def index_dies_def mk_die_def)
  then have pr: "?r = (fst ?r, Inr (?qt, None))" by (simp add: prod_eq_iff)
  have ex: "\<exists>s qt c. ?r = (s, Inr (qt, c)) \<and> ''B'' \<notin> fst ` set (drgn_type_enumerators (type qt))"
    by (rule exI[of _ "fst ?r"], rule exI[of _ ?qt], rule exI[of _ None], rule conjI, rule pr) simp
  have a: "snd (drgn_object_from_dwarf_enumerator index_image drgn_dwarf_info_cache_create 8 ''B'')
     = Inl Unreachable"
    using enumerator_no_match_unreachable[of index_image drgn_dwarf_info_cache_create 8 "''B''"] ex
    by blast
  have "''A'' \<in> fst ` set (drgn_type_enumerators (type ?qt))" by simp
  with enumerator_no_match_unreachable[of index_image drgn_dwarf_info_cache_create 8 "''A''"] pr
  obtain obj where "drgn_object_from_dwarf_enumerator index_image drgn_dwarf_info_cache_create 8 ''A''
      = (fst ?r, Inr obj)" by blast
  then have b: "snd (drgn_object_from_dwarf_enumerator index_image drgn_dwarf_info_cache_create 8 ''A'')
     = Inr (Signed_Object ?qt 0 0)"
    using ev by (auto simp: drgn_object_from_dwarf_enumerator_def drgn_type_from_dwarf_def
        split: prod.splits sum.splits option.splits if_splits)
  from a b show ?thesis by simp
qed

end
